theory Spec2Isabelle
  imports Complex_Main "HOL-Library.Word"
begin

unbundle bit_operations_syntax

section \<open>JavaScript values\<close>

text \<open>
  The validators take an untyped argument. The values modelled are the primitives
  (undefined, null, booleans, numbers, strings), instances of the big number class, and a
  plain object without properties of its own. Objects that carry methods named \<open>split\<close>,
  \<open>match\<close> or \<open>valueOf\<close>, wrapper objects and symbols are outside the model. A number is
  not-a-number, an infinity, or a finite value; finite values are rationals, which include
  every finite double. A string is a list of 8-bit characters, the code units below 256.
\<close>

datatype jsnum = Num rat | NaN | PosInfinity | NegInfinity

datatype jsval =
    JUndefined
  | JNull
  | JBool bool
  | JNum jsnum
  | JStr string
  | JBN int
  | JObj

definition typeof :: "jsval \<Rightarrow> string" where
  "typeof v = (case v of
       JUndefined \<Rightarrow> ''undefined''
     | JNull \<Rightarrow> ''object''
     | JBool _ \<Rightarrow> ''boolean''
     | JNum _ \<Rightarrow> ''number''
     | JStr _ \<Rightarrow> ''string''
     | JBN _ \<Rightarrow> ''object''
     | JObj \<Rightarrow> ''object'')"

section \<open>The message catalog\<close>

text \<open>The keys of the object \<open>validators\<close> of messages.js,
 one constructor per entry.\<close>

datatype message =
    DerivationPath_notString
  | DerivationPath_notValidParts
  | DerivationPath_notValidHeaderKey
  | DerivationPath_notValidPurpouse
  | DerivationPath_notValidCoin
  | DerivationPath_notValidAccount
  | DerivationPath_notValidChangeIndex
  | DerivationPath_notValidAccountIndex
  | DerivationPath_genericError
  | SafeInteger_notNumber
  | SafeInteger_notPositive
  | SafeInteger_notSafe
  | SafeInteger_genericError
  | BigNumber_notBigNumber
  | BigNumber_genericError
  | Address_notStringSequence
  | Address_notLength
  | Address_notFormat
  | Address_notChecksum
  | Address_genericError
  | HexSequence_notStringSequence
  | HexSequence_notFormat
  | HexSequence_genericError

fun validators :: "message \<Rightarrow> string" where
  "validators DerivationPath_notString =
     ''Derivation path is not the correct type (expected a String)''"
| "validators DerivationPath_notValidParts =
     ''Derivation path does not contain the required parts (Purpouse, Coin Id, Account, Change + Index)''"
| "validators DerivationPath_notValidHeaderKey =
     ''Derivation path does not start with the correct header key''"
| "validators DerivationPath_notValidPurpouse =
     ''Derivation path does have the Ethereum reserved Purpouse''"
| "validators DerivationPath_notValidCoin =
     ''Derivation path does have the correct Coin type Id (Main or Test net)''"
| "validators DerivationPath_notValidAccount =
     ''Derivation path does have the correct account value/type''"
| "validators DerivationPath_notValidChangeIndex =
     ''Derivation path does have the correct Change value or Account Index''"
| "validators DerivationPath_notValidAccountIndex =
     ''Derivation path should have only one value for the Account Index''"
| "validators DerivationPath_genericError =
     ''Something is wrong with the supplied derivation path:''"
| "validators SafeInteger_notNumber =
     ''The value passed in as an argument is not a number''"
| "validators SafeInteger_notPositive =
     ''The integer value passed in as an argument is not positive''"
| "validators SafeInteger_notSafe =
     ''The integer value passed in as an argument outside the safe range''"
| "validators SafeInteger_genericError =
     ''Something is wrong with the supplied integer''"
| "validators BigNumber_notBigNumber =
     ''The value passed in is not a Big Number''"
| "validators BigNumber_genericError =
     ''Something is wrong with the supplied Big Number value''"
| "validators Address_notStringSequence =
     ''The address passed in is not a valid String''"
| "validators Address_notLength =
     ''The address passed in does not have the correct length''"
| "validators Address_notFormat =
     ''The address passed in is not in the correct format''"
| "validators Address_notChecksum =
     ''The address passed in does not have the correct checksum''"
| "validators Address_genericError =
     ''Something is wrong with the supplied address''"
| "validators HexSequence_notStringSequence =
     ''The hex sequence passed in is not a valid String''"
| "validators HexSequence_notFormat =
     ''The hex sequence passed in is not in a correct hex format''"
| "validators HexSequence_genericError =
     ''Something is wrong with the supplied hex sequence''"

section \<open>Evaluation: thrown errors and the order of the checks\<close>

text \<open>
  A thrown value is either an \<open>Error\<close> whose text starts with an entry of the catalog
  (the rendering of the offending input that follows the entry is left out), or the
  \<open>TypeError\<close> the language raises for a property read on undefined or null and for a
  call of something that is not a function.

  Every evaluation carries the list of what it did, in order: a call of the assertion
  primitive with the catalog entry of its message and the value of its expression, and an
  indexed read \<open>deSerializedDerivationPath[i]\<close> with the length the array had then.
\<close>

datatype js_error = Error message | TypeError

datatype event = Assert message bool | Segment nat nat

type_synonym 'a eval = "event list \<times> (js_error + 'a)"

definition ret :: "'a \<Rightarrow> 'a eval" where
  "ret x = ([], Inr x)"

definition throw :: "js_error \<Rightarrow> 'a eval" where
  "throw e = ([], Inl e)"

definition ebind :: "'a eval \<Rightarrow> ('a \<Rightarrow> 'b eval) \<Rightarrow> 'b eval" where
  "ebind m f = (case m of
       (tr, Inl e) \<Rightarrow> (tr, Inl e)
     | (tr, Inr x) \<Rightarrow> (case f x of (tr', r) \<Rightarrow> (tr @ tr', r)))"

definition try_catch :: "'a eval \<Rightarrow> (js_error \<Rightarrow> 'a eval) \<Rightarrow> 'a eval" where
  "try_catch m h = (case m of
       (tr, Inl e) \<Rightarrow> (case h e of (tr', r) \<Rightarrow> (tr @ tr', r))
     | (tr, Inr x) \<Rightarrow> (tr, Inr x))"

definition trace :: "'a eval \<Rightarrow> event list" where
  "trace m = fst m"

definition outcome :: "'a eval \<Rightarrow> js_error + 'a" where
  "outcome m = snd m"

text \<open>
  Modelled from the spec: the function \<open>assertTruth\<close> of the module \<open>utils\<close>, which is not
  among the sources. If the expression is false it raises at once a failure whose payload
  is the message; otherwise it returns true.
\<close>

definition assertTruth :: "bool \<Rightarrow> message \<Rightarrow> bool eval" where
  "assertTruth expression msg =
     ([Assert msg expression], if expression then Inr True else Inl (Error msg))"

text \<open>
  The fail-safe that ends every validator:
  \<^verbatim>\<open>if (!validationTests.some(test => test !== false)) { throw new Error(genericError) }
  return true;\<close>
\<close>

definition fail_safe :: "message \<Rightarrow> bool list \<Rightarrow> bool eval" where
  "fail_safe genericError validationTests =
     (if \<not> list_ex (\<lambda>test. test \<noteq> False) validationTests
      then throw (Error genericError)
      else ret True)"

section \<open>Strings\<close>

text \<open>
  \<open>String.prototype.split\<close> with a string separator. The empty separator splits into
  single characters (and the empty string into no piece at all); any other separator is
  searched from left to right, matches do not overlap, and a string with n matches gives
  n + 1 pieces.
\<close>

fun split_from :: "char \<Rightarrow> string \<Rightarrow> string \<Rightarrow> string \<Rightarrow> string list" where
  "split_from c cs acc [] = [rev acc]"
| "split_from c cs acc (x # xs) =
     (if x = c \<and> take (length cs) xs = cs
      then rev acc # split_from c cs [] (drop (length cs) xs)
      else split_from c cs (x # acc) xs)"

definition js_split :: "string \<Rightarrow> string \<Rightarrow> string list" where
  "js_split s separator = (case separator of
       [] \<Rightarrow> map (\<lambda>c. [c]) s
     | c # cs \<Rightarrow> split_from c cs [] s)"

text \<open>
  \<open>String.prototype.toLowerCase\<close> on 8-bit characters: the letters A to Z and the
  capital letters of the upper half of Latin-1 move up by 32.
\<close>

definition lower_char :: "char \<Rightarrow> char" where
  "lower_char c =
     (let n = (of_char c :: nat)
      in if (65 \<le> n \<and> n \<le> 90) \<or> (192 \<le> n \<and> n \<le> 222 \<and> n \<noteq> 215)
         then char_of (n + 32) else c)"

definition toLowerCase :: "string \<Rightarrow> string" where
  "toLowerCase s = map lower_char s"

definition is_digit :: "char \<Rightarrow> bool" where
  "is_digit c = (c \<in> set ''0123456789'')"

definition is_hex :: "char \<Rightarrow> bool" where
  "is_hex c = (c \<in> set ''0123456789abcdefABCDEF'')"

definition is_space :: "char \<Rightarrow> bool" where
  "is_space c = ((of_char c :: nat) \<in> {9, 10, 11, 12, 13, 32, 160})"

definition digit_val :: "char \<Rightarrow> int" where
  "digit_val c = int (of_char c) - 48"

text \<open>
  \<open>parseInt(x, 10)\<close>: the argument is turned into a string (undefined becomes the word
  undefined), leading white space is dropped, one sign is read, and the longest run of
  decimal digits that follows is the value; without a digit the result is NaN, here
  \<open>None\<close>. The value is kept exact. A double rounds runs of digits beyond \<open>2 ^ 53\<close>,
  which cannot change a comparison with a constant below that bound.
\<close>

definition parseInt :: "string option \<Rightarrow> int option" where
  "parseInt x =
     (let s = dropWhile is_space (case x of None \<Rightarrow> ''undefined'' | Some t \<Rightarrow> t);
          negative = (s \<noteq> [] \<and> hd s = CHR ''-'');
          body = (if s \<noteq> [] \<and> (hd s = CHR ''-'' \<or> hd s = CHR ''+'') then tl s else s);
          ds = takeWhile is_digit body
      in if ds = [] then None
         else Some ((if negative then - 1 else 1) * foldl (\<lambda>a c. 10 * a + digit_val c) 0 ds))"

section \<open>The constants of the module defaults\<close>

text \<open>
  The module \<open>defaults\<close> (PATH, MATCH, SPLITTER, UNDEFINED) is not among the sources,
                                      so
  the validators take its constants as an argument. The record of the path constants
  follows the interface \<open>DerivationPathDefaultType\<close>; a regular expression is the set of
  strings it matches. UNDEFINED only occurs in the text of messages.
\<close>

record DerivationPathDefaultType =
  HEADER_KEY :: string
  PURPOSE :: int
  COIN_MAINNET :: int
  COIN_TESTNET :: int
  ACCOUNT :: int
  CHANGE :: int
  INDEX :: int
  DELIMITER :: string

record MatchType =
  DIGITS :: "string \<Rightarrow> bool"
  ADDRESS :: "string \<Rightarrow> bool"
  HEX_STRING :: "string \<Rightarrow> bool"

record defaults =
  PATH :: DerivationPathDefaultType
  MATCH :: MatchType
  SPLITTER :: string

text \<open>
  Modelled from the spec: the digits-only pattern, one or more decimal digits and nothing
  else.
\<close>

definition digits_pattern :: "string \<Rightarrow> bool" where
  "digits_pattern s = (s \<noteq> [] \<and> list_all is_digit s)"

text \<open>
  Modelled from the spec: the hex-address pattern \<^verbatim>\<open>^(0x)?[0-9a-fA-F]{40}$\<close>.
\<close>

definition address_pattern :: "string \<Rightarrow> bool" where
  "address_pattern s =
     ((length s = 40 \<and> list_all is_hex s)
      \<or> (take 2 s = ''0x'' \<and> length (drop 2 s) = 40 \<and> list_all is_hex (drop 2 s)))"

text \<open>
  Modelled from the spec: the hex-sequence pattern, an optional prefix 0x and a body of
  hexadecimal characters of even length.
\<close>

definition even_hex :: "string \<Rightarrow> bool" where
  "even_hex s = (even (length s) \<and> list_all is_hex s)"

definition hex_string_pattern :: "string \<Rightarrow> bool" where
  "hex_string_pattern s = (even_hex s \<or> (take 2 s = ''0x'' \<and> even_hex (drop 2 s)))"

text \<open>
  Modelled from the spec: the path delimiter is the slash, the sub-delimiter is the
  apostrophe, the header key is the letter m and the purpose is 44. The spec names the two
  coin types mainnet and testnet without their numbers; its examples accept 60 and reject
  99, and 60 and 1 are the registered numbers. ACCOUNT, CHANGE and INDEX are not read by
  any validator.
\<close>

definition spec_defaults :: defaults where
  "spec_defaults =
     \<lparr> PATH = \<lparr> HEADER_KEY = ''m'', PURPOSE = 44, COIN_MAINNET = 60, COIN_TESTNET = 1,
                ACCOUNT = 0, CHANGE = 0, INDEX = 0, DELIMITER = ''/'' \<rparr>,
       MATCH = \<lparr> DIGITS = digits_pattern, ADDRESS = address_pattern,
                 HEX_STRING = hex_string_pattern \<rparr>,
       SPLITTER = [CHR 0x27] \<rparr>"

text \<open>
  The same constants with the delimiter apostrophe-slash and the sub-delimiter slash, with
  which the validator reads the hardened notation \<open>m/44'/60'/0'/0/0\<close> of paths.
\<close>

definition hardened_defaults :: defaults where
  "hardened_defaults =
     spec_defaults\<lparr> PATH := (PATH spec_defaults)\<lparr> DELIMITER := [CHR 0x27, CHR ''/''] \<rparr>,
                    SPLITTER := ''/'' \<rparr>"

section \<open>Reads on values that may be undefined\<close>

text \<open>
  An indexed read beyond the end of an array gives undefined, here \<open>None\<close>; a method
  call on undefined raises the TypeError.
\<close>

definition index :: "'a list \<Rightarrow> nat \<Rightarrow> 'a option" where
  "index xs i = (if i < length xs then Some (xs ! i) else None)"

definition segment :: "string list \<Rightarrow> nat \<Rightarrow> string option eval" where
  "segment arr i = ([Segment i (length arr)], Inr (index arr i))"

definition split_method :: "string option \<Rightarrow> string \<Rightarrow> string list eval" where
  "split_method x separator = (case x of
       None \<Rightarrow> throw TypeError
     | Some s \<Rightarrow> ret (js_split s separator))"

definition toLowerCase_method :: "string option \<Rightarrow> string eval" where
  "toLowerCase_method x = (case x of
       None \<Rightarrow> throw TypeError
     | Some s \<Rightarrow> ret (toLowerCase s))"

definition match_method :: "string option \<Rightarrow> (string \<Rightarrow> bool) \<Rightarrow> bool eval" where
  "match_method x pattern = (case x of
       None \<Rightarrow> throw TypeError
     | Some s \<Rightarrow> ret (pattern s))"

text \<open>
  The same members read on the argument itself. Only a string has \<open>split\<close> and \<open>match\<close>. The
  property \<open>length\<close> of a string is its number of characters, that of a big number its
  number of 26-bit words, the other values have none, and the read raises on undefined and
  null.
\<close>

definition jsval_split :: "jsval \<Rightarrow> string \<Rightarrow> string list eval" where
  "jsval_split v separator = (case v of
       JStr s \<Rightarrow> ret (js_split s separator)
     | _ \<Rightarrow> throw TypeError)"

definition jsval_match :: "jsval \<Rightarrow> (string \<Rightarrow> bool) \<Rightarrow> bool eval" where
  "jsval_match v pattern = (case v of
       JStr s \<Rightarrow> ret (pattern s)
     | _ \<Rightarrow> throw TypeError)"

function bn_words :: "nat \<Rightarrow> nat" where
  "bn_words n = (if n < 2 ^ 26 then 1 else Suc (bn_words (n div 2 ^ 26)))"
  by pat_completeness auto
termination
  by (relation "measure id") auto

definition jsval_length :: "jsval \<Rightarrow> nat option eval" where
  "jsval_length v = (case v of
       JUndefined \<Rightarrow> throw TypeError
     | JNull \<Rightarrow> throw TypeError
     | JStr s \<Rightarrow> ret (Some (length s))
     | JBN n \<Rightarrow> ret (Some (bn_words (nat \<bar>n\<bar>)))
     | _ \<Rightarrow> ret None)"

section \<open>derivationPathValidator\<close>

text \<open>
  The expression of each assertion, in the order of the source. The message of an
  assertion is evaluated after its expression and reads the same segment once more.
\<close>

definition header_key_expression :: "defaults \<Rightarrow> string list \<Rightarrow> bool eval" where
  "header_key_expression d deSerializedDerivationPath =
     ebind (segment deSerializedDerivationPath 0) (\<lambda>s0.
     ebind (split_method s0 (SPLITTER d)) (\<lambda>pieces.
     ebind (toLowerCase_method (index pieces 0)) (\<lambda>key.
     ret (key = HEADER_KEY (PATH d)))))"

definition purpose_expression :: "defaults \<Rightarrow> string list \<Rightarrow> bool eval" where
  "purpose_expression d deSerializedDerivationPath =
     ebind (segment deSerializedDerivationPath 0) (\<lambda>s0.
     ebind (split_method s0 (SPLITTER d)) (\<lambda>pieces.
     ret (parseInt (index pieces 1) = Some (PURPOSE (PATH d)))))"

definition account_expression :: "defaults \<Rightarrow> string list \<Rightarrow> bool eval" where
  "account_expression d deSerializedDerivationPath =
     ebind (segment deSerializedDerivationPath 2) (\<lambda>s2.
     match_method s2 (DIGITS (MATCH d)))"

definition change_index_expression :: "defaults \<Rightarrow> string list \<Rightarrow> bool eval" where
  "change_index_expression d deSerializedDerivationPath =
     ebind (segment deSerializedDerivationPath 3) (\<lambda>s3.
     ebind (split_method s3 (SPLITTER d)) (\<lambda>pieces.
     ret (list_all (\<lambda>truth. truth \<noteq> False) (map (\<lambda>v. DIGITS (MATCH d) v) pieces))))"

definition account_index_expression :: "defaults \<Rightarrow> string list \<Rightarrow> bool eval" where
  "account_index_expression d deSerializedDerivationPath =
     ebind (segment deSerializedDerivationPath 3) (\<lambda>s3.
     ebind (split_method s3 (SPLITTER d)) (\<lambda>pieces.
     ret (length pieces \<le> 2)))"

text \<open>
  The body of the validator up to the fail-safe; the result is the array
  \<open>validationTests\<close> as the fail-safe finds it. The guarded split leaves the pair of
  \<open>validationTests\<close> and \<open>deSerializedDerivationPath\<close>: the pieces when the split
  succeeds, and the result of the assertion in the handler with the empty array of
  pieces otherwise.
\<close>

definition derivationPathTests :: "defaults \<Rightarrow> jsval \<Rightarrow> bool list eval" where
  "derivationPathTests d derivationPath =
     ebind (try_catch
              (ebind (jsval_split derivationPath (DELIMITER (PATH d))) (\<lambda>pieces.
               ret ([], pieces)))
              (\<lambda>error.
               ebind (assertTruth (typeof derivationPath = ''string'') DerivationPath_notString)
                 (\<lambda>t0. ret ([t0], []))))
       (\<lambda>(validationTests, deSerializedDerivationPath).
     ebind (assertTruth (length deSerializedDerivationPath = 4) DerivationPath_notValidParts)
       (\<lambda>t1.
     ebind (header_key_expression d deSerializedDerivationPath) (\<lambda>e2.
     ebind (segment deSerializedDerivationPath 0) (\<lambda>_.
     ebind (assertTruth e2 DerivationPath_notValidHeaderKey) (\<lambda>t2.
     ebind (purpose_expression d deSerializedDerivationPath) (\<lambda>e3.
     ebind (segment deSerializedDerivationPath 0) (\<lambda>_.
     ebind (assertTruth e3 DerivationPath_notValidPurpouse) (\<lambda>t3.
     ebind (segment deSerializedDerivationPath 1) (\<lambda>s1.
     let coinType = parseInt s1 in
     ebind (segment deSerializedDerivationPath 1) (\<lambda>_.
     ebind (assertTruth (coinType = Some (COIN_MAINNET (PATH d))
                         \<or> coinType = Some (COIN_TESTNET (PATH d)))
              DerivationPath_notValidCoin) (\<lambda>t4.
     ebind (account_expression d deSerializedDerivationPath) (\<lambda>e5.
     ebind (segment deSerializedDerivationPath 2) (\<lambda>_.
     ebind (assertTruth e5 DerivationPath_notValidAccount) (\<lambda>t5.
     ebind (change_index_expression d deSerializedDerivationPath) (\<lambda>e6.
     ebind (segment deSerializedDerivationPath 3) (\<lambda>_.
     ebind (assertTruth e6 DerivationPath_notValidChangeIndex) (\<lambda>t6.
     ebind (account_index_expression d deSerializedDerivationPath) (\<lambda>e7.
     ebind (segment deSerializedDerivationPath 3) (\<lambda>_.
     ebind (assertTruth e7 DerivationPath_notValidAccountIndex) (\<lambda>t7.
     ret (validationTests @ [t1, t2, t3, t4, t5, t6, t7])))))))))))))))))))))"

definition derivationPathValidator :: "defaults \<Rightarrow> jsval \<Rightarrow> bool eval" where
  "derivationPathValidator d derivationPath =
     ebind (derivationPathTests d derivationPath) (fail_safe DerivationPath_genericError)"

section \<open>safeIntegerValidator\<close>

text \<open>
  The comparison \<open>integer >= 0\<close> turns its left side into a number first. The
  conversion of undefined, null and the booleans is fixed; that of strings and objects
  goes through their text, and is the argument \<open>sn\<close>.
\<close>

definition ToNumber :: "(jsval \<Rightarrow> jsnum) \<Rightarrow> jsval \<Rightarrow> jsnum" where
  "ToNumber sn v = (case v of
       JUndefined \<Rightarrow> NaN
     | JNull \<Rightarrow> Num 0
     | JBool b \<Rightarrow> Num (if b then 1 else 0)
     | JNum n \<Rightarrow> n
     | _ \<Rightarrow> sn v)"

definition ge_zero :: "jsnum \<Rightarrow> bool" where
  "ge_zero n = (case n of
       Num q \<Rightarrow> 0 \<le> q
     | PosInfinity \<Rightarrow> True
     | _ \<Rightarrow> False)"

text \<open>
  \<open>Number.isSafeInteger\<close>: a number, finite, without fractional part, of magnitude at
  most \<open>2 ^ 53 - 1\<close>.
\<close>

definition isSafeInteger :: "jsval \<Rightarrow> bool" where
  "isSafeInteger v = (case v of
       JNum (Num q) \<Rightarrow> q = of_int \<lfloor>q\<rfloor> \<and> \<bar>q\<bar> \<le> 9007199254740991
     | _ \<Rightarrow> False)"

definition safeIntegerTests :: "(jsval \<Rightarrow> jsnum) \<Rightarrow> jsval \<Rightarrow> bool list eval" where
  "safeIntegerTests sn integer =
     ebind (assertTruth True SafeInteger_notNumber) (\<lambda>t0.
     ebind (assertTruth (ge_zero (ToNumber sn integer)) SafeInteger_notPositive) (\<lambda>t1.
     ebind (assertTruth (isSafeInteger integer) SafeInteger_notSafe) (\<lambda>t2.
     ret [t0, t1, t2])))"

definition safeIntegerValidator :: "(jsval \<Rightarrow> jsnum) \<Rightarrow> jsval \<Rightarrow> bool eval" where
  "safeIntegerValidator sn integer =
     ebind (safeIntegerTests sn integer) (fail_safe SafeInteger_genericError)"

section \<open>bigNumberValidator\<close>

text \<open>\<open>BN.isBN\<close> holds of the instances of the big number class.\<close>

definition isBN :: "jsval \<Rightarrow> bool" where
  "isBN v = (case v of JBN _ \<Rightarrow> True | _ \<Rightarrow> False)"

definition bigNumberTests :: "jsval \<Rightarrow> bool list eval" where
  "bigNumberTests bigNumber =
     ebind (assertTruth (isBN bigNumber) BigNumber_notBigNumber) (\<lambda>t0.
     ret [t0])"

definition bigNumberValidator :: "jsval \<Rightarrow> bool eval" where
  "bigNumberValidator bigNumber =
     ebind (bigNumberTests bigNumber) (fail_safe BigNumber_genericError)"

section \<open>hexSequenceValidator\<close>

definition hexSequenceTests :: "defaults \<Rightarrow> jsval \<Rightarrow> bool list eval" where
  "hexSequenceTests d string =
     ebind (assertTruth (typeof string = ''string'') HexSequence_notStringSequence) (\<lambda>t0.
     ebind (jsval_match string (HEX_STRING (MATCH d))) (\<lambda>e1.
     ebind (assertTruth e1 HexSequence_notFormat) (\<lambda>t1.
     ret [t0, t1])))"

definition hexSequenceValidator :: "defaults \<Rightarrow> jsval \<Rightarrow> bool eval" where
  "hexSequenceValidator d string =
     ebind (hexSequenceTests d string) (fail_safe HexSequence_genericError)"

section \<open>Keccak-256\<close>

text \<open>
  Modelled from the spec: the Keccak-256 hash of the checksum, which the library
  ethereumjs-util computes and which is not among the sources. It is the permutation
  Keccak-f[1600] on 25 lanes of 64 bits, lane \<open>axy\<close> at column x and row y, with a
  rate of 136 bytes, the padding of the original Keccak (a byte 1, zeros, and the top bit
  of the last byte of the block), and a digest of 32 bytes. A block has 17 lanes, so the
  reads \<open>l ! i\<close> of \<open>xor_block\<close> on the lanes of a block are in range.
\<close>

type_synonym lane = "64 word"
type_synonym byte = "8 word"
definition rotl64 :: "lane \<Rightarrow> nat \<Rightarrow> lane" where
  "rotl64 w n = (push_bit n w) OR (drop_bit (64 - n) w)"
type_synonym kstate =
  "lane \<times> lane \<times> lane \<times> lane \<times> lane \<times>
   lane \<times> lane \<times> lane \<times> lane \<times> lane \<times>
   lane \<times> lane \<times> lane \<times> lane \<times> lane \<times>
   lane \<times> lane \<times> lane \<times> lane \<times> lane \<times>
   lane \<times> lane \<times> lane \<times> lane \<times> lane"
type_synonym krow = "lane \<times> lane \<times> lane \<times> lane \<times> lane"

definition theta_c :: "kstate \<Rightarrow> krow" where
  "theta_c = (\<lambda>(a00, a10, a20, a30, a40, a01, a11, a21, a31, a41, a02, a12, a22, a32,
                        a42, a03, a13, a23, a33, a43, a04, a14, a24, a34, a44).
     (a00 XOR a01 XOR a02 XOR a03 XOR a04,
      a10 XOR a11 XOR a12 XOR a13 XOR a14,
      a20 XOR a21 XOR a22 XOR a23 XOR a24,
      a30 XOR a31 XOR a32 XOR a33 XOR a34,
      a40 XOR a41 XOR a42 XOR a43 XOR a44))"

definition theta_d :: "krow \<Rightarrow> krow" where
  "theta_d = (\<lambda>(c0, c1, c2, c3, c4).
     (c4 XOR rotl64 c1 1,
      c0 XOR rotl64 c2 1,
      c1 XOR rotl64 c3 1,
      c2 XOR rotl64 c4 1,
      c3 XOR rotl64 c0 1))"

definition theta_x :: "krow \<Rightarrow> kstate \<Rightarrow> kstate" where
  "theta_x = (\<lambda>(d0, d1, d2, d3, d4) (a00, a10, a20, a30, a40, a01, a11, a21, a31, a41,
                        a02, a12, a22, a32, a42, a03, a13, a23, a33, a43, a04, a14, a24, a34,
                        a44).
     (a00 XOR d0, a10 XOR d1, a20 XOR d2, a30 XOR d3, a40 XOR d4,
      a01 XOR d0, a11 XOR d1, a21 XOR d2, a31 XOR d3, a41 XOR d4,
      a02 XOR d0, a12 XOR d1, a22 XOR d2, a32 XOR d3, a42 XOR d4,
      a03 XOR d0, a13 XOR d1, a23 XOR d2, a33 XOR d3, a43 XOR d4,
      a04 XOR d0, a14 XOR d1, a24 XOR d2, a34 XOR d3, a44 XOR d4))"

definition theta :: "kstate \<Rightarrow> kstate" where
  "theta A = theta_x (theta_d (theta_c A)) A"

definition rho_pi :: "kstate \<Rightarrow> kstate" where
  "rho_pi = (\<lambda>(a00, a10, a20, a30, a40, a01, a11, a21, a31, a41, a02, a12, a22, a32, a42,
                       a03, a13, a23, a33, a43, a04, a14, a24, a34, a44).
     (rotl64 a00 0, rotl64 a11 44, rotl64 a22 43, rotl64 a33 21, rotl64 a44 14,
      rotl64 a30 28, rotl64 a41 20, rotl64 a02 3, rotl64 a13 45, rotl64 a24 61,
      rotl64 a10 1, rotl64 a21 6, rotl64 a32 25, rotl64 a43 8, rotl64 a04 18,
      rotl64 a40 27, rotl64 a01 36, rotl64 a12 10, rotl64 a23 15, rotl64 a34 56,
      rotl64 a20 62, rotl64 a31 55, rotl64 a42 39, rotl64 a03 41, rotl64 a14 2))"

definition chi :: "kstate \<Rightarrow> kstate" where
  "chi = (\<lambda>(a00, a10, a20, a30, a40, a01, a11, a21, a31, a41, a02, a12, a22, a32, a42,
                    a03, a13, a23, a33, a43, a04, a14, a24, a34, a44).
     (a00 XOR (NOT a10 AND a20), a10 XOR (NOT a20 AND a30), a20 XOR (NOT a30 AND a40),
                                          a30 XOR (NOT a40 AND a00), a40 XOR (NOT a00 AND a10),
      a01 XOR (NOT a11 AND a21), a11 XOR (NOT a21 AND a31), a21 XOR (NOT a31 AND a41),
                                          a31 XOR (NOT a41 AND a01), a41 XOR (NOT a01 AND a11),
      a02 XOR (NOT a12 AND a22), a12 XOR (NOT a22 AND a32), a22 XOR (NOT a32 AND a42),
                                          a32 XOR (NOT a42 AND a02), a42 XOR (NOT a02 AND a12),
      a03 XOR (NOT a13 AND a23), a13 XOR (NOT a23 AND a33), a23 XOR (NOT a33 AND a43),
                                          a33 XOR (NOT a43 AND a03), a43 XOR (NOT a03 AND a13),
      a04 XOR (NOT a14 AND a24), a14 XOR (NOT a24 AND a34), a24 XOR (NOT a34 AND a44),
                                          a34 XOR (NOT a44 AND a04),
                                          a44 XOR (NOT a04 AND a14)))"

definition iota :: "lane \<Rightarrow> kstate \<Rightarrow> kstate" where
  "iota rc = (\<lambda>(a00, rest). (a00 XOR rc, rest))"

definition keccak_round :: "lane \<Rightarrow> kstate \<Rightarrow> kstate" where
  "keccak_round rc A = iota rc (chi (rho_pi (theta A)))"

definition RC :: "lane list" where
  "RC = [0x0000000000000001, 0x0000000000008082, 0x800000000000808A, 0x8000000080008000,
         0x000000000000808B, 0x0000000080000001, 0x8000000080008081, 0x8000000000008009,
         0x000000000000008A, 0x0000000000000088, 0x0000000080008009, 0x000000008000000A,
         0x000000008000808B, 0x800000000000008B, 0x8000000000008089, 0x8000000000008003,
         0x8000000000008002, 0x8000000000000080, 0x000000000000800A, 0x800000008000000A,
         0x8000000080008081, 0x8000000000008080, 0x0000000080000001, 0x8000000080008008]"

definition keccak_f :: "kstate \<Rightarrow> kstate" where
  "keccak_f A = foldl (\<lambda>S rc. keccak_round rc S) A RC"

definition zero_state :: kstate where
  "zero_state = (0, 0, 0, 0, 0, 0, 0, 0, 0, 0, 0, 0, 0, 0, 0, 0, 0, 0, 0, 0, 0, 0, 0, 0, 0)"

definition pad10star1 :: "byte list \<Rightarrow> byte list" where
  "pad10star1 m =
     (let q = 136 - length m mod 136
      in if q = 1 then m @ [0x81] else m @ [0x01] @ replicate (q - 2) 0 @ [0x80])"

fun le_lane :: "byte list \<Rightarrow> lane" where
  "le_lane [] = 0"
| "le_lane (b # bs) = ucast b OR push_bit 8 (le_lane bs)"

definition block_lanes :: "byte list \<Rightarrow> lane list" where
  "block_lanes blk = map (\<lambda>j. le_lane (take 8 (drop (8 * j) blk))) [0..<17]"

definition blocks :: "byte list \<Rightarrow> byte list list" where
  "blocks p = map (\<lambda>i. take 136 (drop (136 * i) p)) [0..<length p div 136]"

definition xor_block :: "kstate \<Rightarrow> lane list \<Rightarrow> kstate" where
  "xor_block = (\<lambda>(a00, a10, a20, a30, a40, a01, a11, a21, a31, a41, a02, a12, a22, a32,
                          a42, a03, a13, a23, a33, a43, a04, a14, a24, a34, a44) l.
     (a00 XOR l ! 0, a10 XOR l ! 1, a20 XOR l ! 2, a30 XOR l ! 3, a40 XOR l ! 4,
      a01 XOR l ! 5, a11 XOR l ! 6, a21 XOR l ! 7, a31 XOR l ! 8, a41 XOR l ! 9,
      a02 XOR l ! 10, a12 XOR l ! 11, a22 XOR l ! 12, a32 XOR l ! 13, a42 XOR l ! 14,
      a03 XOR l ! 15, a13 XOR l ! 16, a23, a33, a43,
      a04, a14, a24, a34, a44))"

definition absorb :: "kstate \<Rightarrow> byte list \<Rightarrow> kstate" where
  "absorb A blk = keccak_f (xor_block A (block_lanes blk))"

definition lane_bytes :: "lane \<Rightarrow> byte list" where
  "lane_bytes w = map (\<lambda>i. ucast (drop_bit (8 * i) w)) [0..<8]"

definition squeeze :: "kstate \<Rightarrow> byte list" where
  "squeeze = (\<lambda>(a00, a10, a20, a30, rest).
     lane_bytes a00 @ lane_bytes a10 @ lane_bytes a20 @ lane_bytes a30)"

definition keccak256 :: "byte list \<Rightarrow> byte list" where
  "keccak256 m = squeeze (foldl absorb zero_state (blocks (pad10star1 m)))"

definition nibbles :: "byte list \<Rightarrow> nat list" where
  "nibbles bs = concat (map (\<lambda>b. [unat (drop_bit 4 b), unat (b AND 0x0F)]) bs)"

definition bytes_of :: "string \<Rightarrow> byte list" where
  "bytes_of s = map (\<lambda>c. of_char c) s"

section \<open>addressValidator\<close>

text \<open>
  Modelled from the spec: the function \<open>isValidChecksumAddress\<close> of the library
  ethereumjs-util, which is not among the sources. The lowercase hex digits are hashed with
  Keccak-256, and the case of each hex character is compared with the corresponding nibble
  of the digest: a letter is upper case when the nibble is at least 8, and lower case
  otherwise. The prefix 0x is not part of the digits. A value that is not a string has no
  valid checksum.
\<close>

definition stripHexPrefix :: "string \<Rightarrow> string" where
  "stripHexPrefix s = (if take 2 s = ''0x'' then drop 2 s else s)"

definition upper_hex :: "char \<Rightarrow> char" where
  "upper_hex c = (if c \<in> set ''abcdef'' then char_of ((of_char c :: nat) - 32) else c)"

definition toChecksum :: "string \<Rightarrow> string" where
  "toChecksum digits =
     (let address = toLowerCase digits;
          hash = nibbles (keccak256 (bytes_of address))
      in map (\<lambda>(c, h). if 8 \<le> h then upper_hex c else c) (zip address hash))"

definition isValidChecksumAddress :: "jsval \<Rightarrow> bool" where
  "isValidChecksumAddress v = (case v of
       JStr s \<Rightarrow> toChecksum (stripHexPrefix s) = stripHexPrefix s
     | _ \<Rightarrow> False)"

definition addressTests :: "defaults \<Rightarrow> jsval \<Rightarrow> bool list eval" where
  "addressTests d address =
     ebind (assertTruth (typeof address = ''string'') Address_notStringSequence) (\<lambda>t0.
     ebind (jsval_length address) (\<lambda>len.
     ebind (assertTruth (len = Some 40 \<or> len = Some 42) Address_notStringSequence) (\<lambda>t1.
     ebind (jsval_match address (ADDRESS (MATCH d))) (\<lambda>e2.
     ebind (assertTruth e2 Address_notFormat) (\<lambda>t2.
     ebind (assertTruth (isValidChecksumAddress address) Address_notChecksum) (\<lambda>t3.
     ret [t0, t1, t2, t3]))))))"

definition addressValidator :: "defaults \<Rightarrow> jsval \<Rightarrow> bool eval" where
  "addressValidator d address =
     ebind (addressTests d address) (fail_safe Address_genericError)"

section \<open>The five validators\<close>

text \<open>The validators by name, for statements about all of them.\<close>

datatype validator = DerivationPath | SafeInteger | BigNumber | Address | HexSequence

definition validate ::
  "defaults \<Rightarrow> (jsval \<Rightarrow> jsnum) \<Rightarrow> validator \<Rightarrow> jsval \<Rightarrow> bool eval" where
  "validate d sn k x = (case k of
       DerivationPath \<Rightarrow> derivationPathValidator d x
     | SafeInteger \<Rightarrow> safeIntegerValidator sn x
     | BigNumber \<Rightarrow> bigNumberValidator x
     | Address \<Rightarrow> addressValidator d x
     | HexSequence \<Rightarrow> hexSequenceValidator d x)"

text \<open>The entries of the catalog that belong to each validator.\<close>

definition generic_of :: "validator \<Rightarrow> message" where
  "generic_of k = (case k of
       DerivationPath \<Rightarrow> DerivationPath_genericError
     | SafeInteger \<Rightarrow> SafeInteger_genericError
     | BigNumber \<Rightarrow> BigNumber_genericError
     | Address \<Rightarrow> Address_genericError
     | HexSequence \<Rightarrow> HexSequence_genericError)"

definition tests_of ::
  "defaults \<Rightarrow> (jsval \<Rightarrow> jsnum) \<Rightarrow> validator \<Rightarrow> jsval \<Rightarrow> bool list eval" where
  "tests_of d sn k x = (case k of
       DerivationPath \<Rightarrow> derivationPathTests d x
     | SafeInteger \<Rightarrow> safeIntegerTests sn x
     | BigNumber \<Rightarrow> bigNumberTests x
     | Address \<Rightarrow> addressTests d x
     | HexSequence \<Rightarrow> hexSequenceTests d x)"

section \<open>Calls on a store\<close>

text \<open>
  What a call can leave behind for the next one is the state of the objects of the module:
  the catalog of messages, the constants, and the arrays allocated so far. The store holds
  all three; the arrays are addressed by their position.
\<close>

record store =
  catalog :: "message \<Rightarrow> string"
  constants :: defaults
  arrays :: "bool list list"

text \<open>
  A thrown error as the caller of a validator sees it: the entry of the catalog and the
  text read from the catalog when the error was built, or the TypeError.
\<close>

datatype thrown = Thrown message string | ThrownTypeError

type_synonym 'a run = "store \<Rightarrow> (thrown + 'a) \<times> store"

text \<open>
  A call takes the store as it finds it and leaves its result with the store as it is
  afterwards; a thrown error ends the call, and a handler catches it.
\<close>

definition unit_call :: "'a \<Rightarrow> 'a run" where
  "unit_call x \<sigma> = (Inr x, \<sigma>)"

definition bind_call :: "'a run \<Rightarrow> ('a \<Rightarrow> 'b run) \<Rightarrow> 'b run" where
  "bind_call m f \<sigma> = (case m \<sigma> of
       (Inl e, \<sigma>') \<Rightarrow> (Inl e, \<sigma>')
     | (Inr x, \<sigma>') \<Rightarrow> f x \<sigma>')"

definition try_call :: "'a run \<Rightarrow> (thrown \<Rightarrow> 'a run) \<Rightarrow> 'a run" where
  "try_call m h \<sigma> = (case m \<sigma> of
       (Inl e, \<sigma>') \<Rightarrow> h e \<sigma>'
     | (Inr x, \<sigma>') \<Rightarrow> (Inr x, \<sigma>'))"

text \<open>
  The evaluation of an expression reads its operands and the constants it was given and
  writes nothing; the error it throws takes its text from the catalog of the store.
\<close>

definition thrown_of :: "store \<Rightarrow> js_error + 'a \<Rightarrow> thrown + 'a" where
  "thrown_of \<sigma> r = (case r of
       Inl (Error k) \<Rightarrow> Inl (Thrown k (catalog \<sigma> k))
     | Inl TypeError \<Rightarrow> Inl ThrownTypeError
     | Inr x \<Rightarrow> Inr x)"

definition lift :: "'a eval \<Rightarrow> 'a run" where
  "lift m \<sigma> = (thrown_of \<sigma> (outcome m), \<sigma>)"

text \<open>
  The constants are read from the store. \<^verbatim>\<open>const validationTests = []\<close> allocates an
  empty array at the next free address, \<open>push\<close> appends to the array at an address, and
  \<open>some_not_false\<close> is \<^verbatim>\<open>validationTests.some(test => test !== false)\<close>. An address
  that was never allocated cannot occur in the source; the model raises on it.
\<close>

definition get_constants :: "defaults run" where
  "get_constants \<sigma> = (Inr (constants \<sigma>), \<sigma>)"

definition new_array :: "nat run" where
  "new_array \<sigma> = (Inr (length (arrays \<sigma>)), \<sigma>\<lparr>arrays := arrays \<sigma> @ [[]]\<rparr>)"

definition push :: "nat \<Rightarrow> bool \<Rightarrow> unit run" where
  "push a b \<sigma> =
     (if a < length (arrays \<sigma>)
      then (Inr (), \<sigma>\<lparr>arrays := (arrays \<sigma>)[a := arrays \<sigma> ! a @ [b]]\<rparr>)
      else (Inl ThrownTypeError, \<sigma>))"

definition some_not_false :: "nat \<Rightarrow> bool run" where
  "some_not_false a \<sigma> =
     (if a < length (arrays \<sigma>)
      then (Inr (list_ex (\<lambda>test. test \<noteq> False) (arrays \<sigma> ! a)), \<sigma>)
      else (Inl ThrownTypeError, \<sigma>))"

text \<open>
  \<^verbatim>\<open>validationTests.push(assertTruth({ expression, message }))\<close> and the fail-safe, on the
  array at the address \<open>validationTests\<close>.
\<close>

definition push_assert :: "nat \<Rightarrow> bool \<Rightarrow> message \<Rightarrow> unit run" where
  "push_assert validationTests expression msg =
     bind_call (lift (assertTruth expression msg)) (push validationTests)"

definition fail_safe_call :: "nat \<Rightarrow> message \<Rightarrow> bool run" where
  "fail_safe_call validationTests genericError =
     bind_call (some_not_false validationTests) (\<lambda>some.
     if \<not> some then lift (throw (Error genericError)) else unit_call True)"

text \<open>
  The five validators as calls, statement by statement as in the source. The expressions
  of the assertions on a derivation path are the ones defined above.
\<close>

definition safeIntegerValidator_call :: "(jsval \<Rightarrow> jsnum) \<Rightarrow> jsval \<Rightarrow> bool run" where
  "safeIntegerValidator_call sn integer =
     bind_call new_array (\<lambda>validationTests.
     bind_call (push_assert validationTests True SafeInteger_notNumber) (\<lambda>_.
     bind_call (push_assert validationTests (ge_zero (ToNumber sn integer))
                  SafeInteger_notPositive) (\<lambda>_.
     bind_call (push_assert validationTests (isSafeInteger integer) SafeInteger_notSafe) (\<lambda>_.
     fail_safe_call validationTests SafeInteger_genericError))))"

definition bigNumberValidator_call :: "jsval \<Rightarrow> bool run" where
  "bigNumberValidator_call bigNumber =
     bind_call new_array (\<lambda>validationTests.
     bind_call (push_assert validationTests (isBN bigNumber) BigNumber_notBigNumber) (\<lambda>_.
     fail_safe_call validationTests BigNumber_genericError))"

definition hexSequenceValidator_call :: "jsval \<Rightarrow> bool run" where
  "hexSequenceValidator_call string =
     bind_call get_constants (\<lambda>d.
     bind_call new_array (\<lambda>validationTests.
     bind_call (push_assert validationTests (typeof string = ''string'')
                  HexSequence_notStringSequence) (\<lambda>_.
     bind_call (lift (jsval_match string (HEX_STRING (MATCH d)))) (\<lambda>e1.
     bind_call (push_assert validationTests e1 HexSequence_notFormat) (\<lambda>_.
     fail_safe_call validationTests HexSequence_genericError)))))"

definition addressValidator_call :: "jsval \<Rightarrow> bool run" where
  "addressValidator_call address =
     bind_call get_constants (\<lambda>d.
     bind_call new_array (\<lambda>validationTests.
     bind_call (push_assert validationTests (typeof address = ''string'')
                  Address_notStringSequence) (\<lambda>_.
     bind_call (lift (jsval_length address)) (\<lambda>len.
     bind_call (push_assert validationTests (len = Some 40 \<or> len = Some 42)
                  Address_notStringSequence) (\<lambda>_.
     bind_call (lift (jsval_match address (ADDRESS (MATCH d)))) (\<lambda>e2.
     bind_call (push_assert validationTests e2 Address_notFormat) (\<lambda>_.
     bind_call (push_assert validationTests (isValidChecksumAddress address)
                  Address_notChecksum) (\<lambda>_.
     fail_safe_call validationTests Address_genericError))))))))"

definition derivationPathValidator_call :: "jsval \<Rightarrow> bool run" where
  "derivationPathValidator_call derivationPath =
     bind_call get_constants (\<lambda>d.
     bind_call new_array (\<lambda>validationTests.
     bind_call (try_call (lift (jsval_split derivationPath (DELIMITER (PATH d))))
                 (\<lambda>error.
                  bind_call (push_assert validationTests
                               (typeof derivationPath = ''string'') DerivationPath_notString)
                    (\<lambda>_. unit_call [])))
       (\<lambda>deSerializedDerivationPath.
     bind_call (push_assert validationTests (length deSerializedDerivationPath = 4)
                  DerivationPath_notValidParts) (\<lambda>_.
     bind_call (lift (header_key_expression d deSerializedDerivationPath)) (\<lambda>e2.
     bind_call (push_assert validationTests e2 DerivationPath_notValidHeaderKey) (\<lambda>_.
     bind_call (lift (purpose_expression d deSerializedDerivationPath)) (\<lambda>e3.
     bind_call (push_assert validationTests e3 DerivationPath_notValidPurpouse) (\<lambda>_.
     bind_call (lift (segment deSerializedDerivationPath 1)) (\<lambda>s1.
     let coinType = parseInt s1 in
     bind_call (push_assert validationTests
                  (coinType = Some (COIN_MAINNET (PATH d))
                   \<or> coinType = Some (COIN_TESTNET (PATH d)))
                  DerivationPath_notValidCoin) (\<lambda>_.
     bind_call (lift (account_expression d deSerializedDerivationPath)) (\<lambda>e5.
     bind_call (push_assert validationTests e5 DerivationPath_notValidAccount) (\<lambda>_.
     bind_call (lift (change_index_expression d deSerializedDerivationPath)) (\<lambda>e6.
     bind_call (push_assert validationTests e6 DerivationPath_notValidChangeIndex) (\<lambda>_.
     bind_call (lift (account_index_expression d deSerializedDerivationPath)) (\<lambda>e7.
     bind_call (push_assert validationTests e7 DerivationPath_notValidAccountIndex) (\<lambda>_.
     fail_safe_call validationTests DerivationPath_genericError))))))))))))))))"

definition validate_call :: "(jsval \<Rightarrow> jsnum) \<Rightarrow> validator \<Rightarrow> jsval \<Rightarrow> bool run" where
  "validate_call sn k x = (case k of
       DerivationPath \<Rightarrow> derivationPathValidator_call x
     | SafeInteger \<Rightarrow> safeIntegerValidator_call sn x
     | BigNumber \<Rightarrow> bigNumberValidator_call x
     | Address \<Rightarrow> addressValidator_call x
     | HexSequence \<Rightarrow> hexSequenceValidator_call x)"

text \<open>
  A result \<open>res\<close> of a call started in the store \<open>\<sigma>\<close> agrees with the outcome \<open>r\<close> and
  leaves the catalog, the constants and the arrays of \<open>\<sigma>\<close> as they were, with one array
  more.
\<close>

definition framed :: "store \<Rightarrow> (thrown + bool) \<times> store \<Rightarrow> js_error + bool \<Rightarrow> bool" where
  "framed \<sigma> res r \<longleftrightarrow>
     fst res = thrown_of \<sigma> r \<and> catalog (snd res) = catalog \<sigma>
     \<and> constants (snd res) = constants \<sigma> \<and> butlast (arrays (snd res)) = arrays \<sigma>"

section \<open>Evaluation lemmas\<close>

lemmas path_defs = derivationPathValidator_def derivationPathTests_def
  header_key_expression_def purpose_expression_def account_expression_def
  change_index_expression_def account_index_expression_def

lemmas tests_defs = safeIntegerValidator_def safeIntegerTests_def bigNumberValidator_def
  bigNumberTests_def hexSequenceValidator_def hexSequenceTests_def addressValidator_def
  addressTests_def

lemmas member_defs = index_def split_method_def toLowerCase_method_def
  match_method_def jsval_split_def jsval_match_def jsval_length_def

lemmas string_defs = js_split_def toLowerCase_def lower_char_def parseInt_def is_space_def
  is_digit_def is_hex_def digit_val_def digits_pattern_def address_pattern_def
  hex_string_pattern_def even_hex_def char_of_def bit_0

lemma ebind_ret: "ebind (ret x) f = f x"
  by (simp add: ebind_def ret_def split: prod.splits)

lemma ebind_throw: "ebind (throw e) f = throw e"
  by (simp add: ebind_def throw_def)

lemma ebind_Inl: "ebind (tr, Inl e) f = (tr, Inl e)"
  by (simp add: ebind_def)

lemma ebind_assoc: "ebind (ebind m f) g = ebind m (\<lambda>x. ebind (f x) g)"
  by (simp add: ebind_def split: prod.splits sum.splits)

lemma ebind_emit: "ebind (apfst ((#) ev) m) f = apfst ((#) ev) (ebind m f)"
  by (simp add: ebind_def split: prod.splits sum.splits)

lemma ebind_assertTruth:
  "ebind (assertTruth e k) f =
     (if e then apfst ((#) (Assert k True)) (f True) else ([Assert k False], Inl (Error k)))"
  by (simp add: ebind_def assertTruth_def split: prod.splits)

lemma ebind_segment:
  "ebind (segment arr i) f = apfst ((#) (Segment i (length arr))) (f (index arr i))"
  by (simp add: ebind_def segment_def split: prod.splits)

lemma try_catch_ret: "try_catch (ret x) h = ret x"
  by (simp add: try_catch_def ret_def)

lemma try_catch_throw: "try_catch (throw e) h = h e"
  by (simp add: try_catch_def throw_def split: prod.splits)

lemma trace_emit: "trace (apfst ((#) ev) m) = ev # trace m"
  by (simp add: trace_def)

lemma outcome_emit: "outcome (apfst ((#) ev) m) = outcome m"
  by (simp add: outcome_def)

lemma trace_ret: "trace (ret x) = []"
  by (simp add: trace_def ret_def)

lemma outcome_ret: "outcome (ret x) = Inr x"
  by (simp add: outcome_def ret_def)

lemma trace_throw: "trace (throw e) = []"
  by (simp add: trace_def throw_def)

lemma outcome_throw: "outcome (throw e) = Inl e"
  by (simp add: outcome_def throw_def)

lemma trace_Pair: "trace (tr, r) = tr"
  by (simp add: trace_def)

lemma outcome_Pair: "outcome (tr, r) = r"
  by (simp add: outcome_def)

lemma outcome_ebind:
  "outcome (ebind m f) = (case outcome m of Inl e \<Rightarrow> Inl e | Inr x \<Rightarrow> outcome (f x))"
  by (simp add: outcome_def ebind_def split: prod.splits sum.splits)

lemmas step = ebind_assoc ebind_ret ebind_throw ebind_Inl ebind_emit ebind_assertTruth
  ebind_segment try_catch_ret try_catch_throw trace_emit outcome_emit trace_ret outcome_ret
  trace_throw outcome_throw trace_Pair outcome_Pair

lemmas run = ret_def throw_def ebind_def try_catch_def assertTruth_def segment_def
  fail_safe_def trace_def outcome_def

lemma split_from_not_Nil: "split_from c cs acc s \<noteq> []"
  by (induction s arbitrary: acc) auto

lemma js_split_not_Nil: "separator \<noteq> [] \<Longrightarrow> js_split s separator \<noteq> []"
  by (cases separator) (simp_all add: js_split_def split_from_not_Nil)

lemma length_4E:
  assumes "length xs = 4"
  obtains a b c e where "xs = [a, b, c, e]"
  using assms by (auto simp: length_Suc_conv numeral_eq_Suc)

lemma fail_safe_all_true:
  "ts \<noteq> [] \<Longrightarrow> list_all (\<lambda>t. t = True) ts \<Longrightarrow> fail_safe g ts = ret True"
  by (cases ts) (auto simp: fail_safe_def)

section \<open>Safe integers\<close>

text \<open>
  C3. \<open>safeIntegerValidator(9007199254740991)\<close> returns true,
  \<open>safeIntegerValidator(9007199254740992)\<close> raises the failure of the entry \<open>notSafe\<close>, and
  \<open>safeIntegerValidator(-1)\<close> raises the failure of the entry \<open>notPositive\<close>: the comparison
  with 0 is asserted before the safe-integer test, which is not evaluated for \<open>-1\<close>.
\<close>

theorem safeInteger_examples:
  "safeIntegerValidator sn (JNum (Num 9007199254740991)) =
     ([Assert SafeInteger_notNumber True, Assert SafeInteger_notPositive True,
       Assert SafeInteger_notSafe True], Inr True)
   \<and> safeIntegerValidator sn (JNum (Num 9007199254740992)) =
     ([Assert SafeInteger_notNumber True, Assert SafeInteger_notPositive True,
       Assert SafeInteger_notSafe False], Inl (Error SafeInteger_notSafe))
   \<and> safeIntegerValidator sn (JNum (Num (- 1))) =
     ([Assert SafeInteger_notNumber True, Assert SafeInteger_notPositive False],
      Inl (Error SafeInteger_notPositive))"
  by (simp add: tests_defs run ToNumber_def ge_zero_def isSafeInteger_def)

text \<open>
  C4. For every argument, \<open>safeIntegerValidator\<close> never raises the failure of the entry
  \<open>notNumber\<close>: its first assertion is called with the expression true whatever the
  argument is, so the call returns true or raises the failure of \<open>notPositive\<close>, of
  \<open>notSafe\<close> or the generic one.
\<close>

theorem safeInteger_never_notNumber:
  "outcome (safeIntegerValidator sn v) \<noteq> Inl (Error SafeInteger_notNumber)
   \<and> hd (trace (safeIntegerValidator sn v)) = Assert SafeInteger_notNumber True
   \<and> Assert SafeInteger_notNumber False \<notin> set (trace (safeIntegerValidator sn v))
   \<and> outcome (safeIntegerValidator sn v) \<in>
       {Inr True, Inl (Error SafeInteger_notPositive), Inl (Error SafeInteger_notSafe),
        Inl (Error SafeInteger_genericError)}"
  by (simp add: tests_defs step fail_safe_def)

section \<open>Derivation paths\<close>

text \<open>
  C7, as the code has it. On an argument that is not a string the split raises, the
  handler asserts that the argument is a string, and that assertion raises the failure of
  the entry \<open>notString\<close> at once: it is the only check evaluated, and no later check
  runs against the empty array of segments.
\<close>

theorem derivationPath_not_string:
  assumes "\<forall>s. v \<noteq> JStr s"
  shows "derivationPathValidator d v =
     ([Assert DerivationPath_notString False], Inl (Error DerivationPath_notString))"
  using assms
  by (cases v; simp add: path_defs run member_defs typeof_def)

theorem derivationPath_not_string_witness:
  "(\<forall>s. JUndefined \<noteq> JStr s)
   \<and> derivationPathValidator spec_defaults JUndefined =
     ([Assert DerivationPath_notString False], Inl (Error DerivationPath_notString))"
  using derivationPath_not_string [of JUndefined spec_defaults] by simp

text \<open>
  C7, as stated, fails on the number 42: the trace of the call holds the assertion of
  \<open>notString\<close> and nothing else, so the segment count and the later checks are never
  evaluated.
\<close>

theorem derivationPath_number_aborts:
  "trace (derivationPathValidator spec_defaults (JNum (Num 42))) =
     [Assert DerivationPath_notString False]
   \<and> outcome (derivationPathValidator spec_defaults (JNum (Num 42))) =
     Inl (Error DerivationPath_notString)"
  by (simp add: path_defs run member_defs typeof_def)

text \<open>
  C10. For every string, when the sub-delimiter is not the empty string: every indexed
  read of a segment happens on an array of length 4 at an index below 4; the call returns
  true or raises one of the failures of the catalog (never the TypeError of a read on
  undefined); and when the split does not give four segments the count assertion raises
  before any segment is read.
\<close>

theorem derivationPath_segments_in_range:
  assumes "SPLITTER d \<noteq> []"
  shows "(\<forall>i n. Segment i n \<in> set (trace (derivationPathValidator d (JStr s)))
            \<longrightarrow> n = 4 \<and> i < 4)
    \<and> outcome (derivationPathValidator d (JStr s)) \<in>
        {Inr True, Inl (Error DerivationPath_notValidParts),
         Inl (Error DerivationPath_notValidHeaderKey),
         Inl (Error DerivationPath_notValidPurpouse),
         Inl (Error DerivationPath_notValidCoin), Inl (Error DerivationPath_notValidAccount),
         Inl (Error DerivationPath_notValidChangeIndex),
         Inl (Error DerivationPath_notValidAccountIndex)}
    \<and> (length (js_split s (DELIMITER (PATH d))) \<noteq> 4 \<longrightarrow>
         derivationPathValidator d (JStr s) =
           ([Assert DerivationPath_notValidParts False],
            Inl (Error DerivationPath_notValidParts)))"
proof (cases "length (js_split s (DELIMITER (PATH d))) = 4")
  case False
  then show ?thesis
    by (simp add: path_defs step member_defs)
next
  case True
  then obtain a b c e where segs: "js_split s (DELIMITER (PATH d)) = [a, b, c, e]"
    by (rule length_4E)
  obtain p ps where pieces: "js_split a (SPLITTER d) = p # ps"
    using js_split_not_Nil [OF assms, of a] by (cases "js_split a (SPLITTER d)") auto
  show ?thesis
    by (simp add: path_defs step member_defs segs pieces fail_safe_def Let_def)
qed

theorem derivationPath_segments_in_range_witness:
  "SPLITTER spec_defaults \<noteq> []
   \<and> length (js_split ''m/44/60'' (DELIMITER (PATH spec_defaults))) \<noteq> 4
   \<and> derivationPathValidator spec_defaults (JStr ''m/44/60'') =
       ([Assert DerivationPath_notValidParts False], Inl (Error DerivationPath_notValidParts))"
  using derivationPath_segments_in_range [of spec_defaults "''m/44/60''"]
  by (simp add: spec_defaults_def js_split_def)

text \<open>
  The condition on the sub-delimiter is needed: with the empty sub-delimiter the empty
  first segment splits into no piece at all, and the read of the header key raises the
  TypeError.
\<close>

lemma empty_splitter_type_error:
  "derivationPathValidator (spec_defaults\<lparr>SPLITTER := []\<rparr>) (JStr ''///'') =
     ([Assert DerivationPath_notValidParts True, Segment 0 4], Inl TypeError)"
  by (simp add: path_defs run member_defs spec_defaults_def string_defs)

section \<open>The fail-safe\<close>

lemma derivationPath_tests_string:
  "outcome (derivationPathTests d (JStr s)) = Inr ts \<Longrightarrow> ts = replicate 7 True"
  by (auto simp add: path_defs step member_defs Let_def numeral_eq_Suc
      split: if_splits option.splits)

lemma derivationPath_tests_other:
  "\<forall>s. x \<noteq> JStr s \<Longrightarrow>
     outcome (derivationPathTests d x) = Inl (Error DerivationPath_notString)"
  by (cases x; simp add: path_defs step member_defs typeof_def)

lemma derivationPath_tests_error:
  "outcome (derivationPathTests d x) \<noteq> Inl (Error DerivationPath_genericError)"
  by (cases x; auto simp add: path_defs step member_defs Let_def typeof_def
      split: if_splits option.splits)

lemma tests_all_true:
  "outcome (tests_of d sn k x) = Inr ts \<Longrightarrow> ts \<noteq> [] \<and> list_all (\<lambda>t. t = True) ts"
proof (cases k)
  case DerivationPath
  assume r: "outcome (tests_of d sn k x) = Inr ts"
  show ?thesis
  proof (cases "\<exists>s. x = JStr s")
    case True
    with r DerivationPath have "ts = replicate 7 True"
      by (auto simp: tests_of_def dest: derivationPath_tests_string)
    then show ?thesis by (simp add: numeral_eq_Suc)
  next
    case False
    with r DerivationPath show ?thesis
      by (simp add: tests_of_def derivationPath_tests_other)
  qed
next
  case SafeInteger
  assume "outcome (tests_of d sn k x) = Inr ts"
  with SafeInteger show ?thesis
    by (auto simp: tests_of_def tests_defs step split: if_splits)
next
  case BigNumber
  assume "outcome (tests_of d sn k x) = Inr ts"
  with BigNumber show ?thesis
    by (auto simp: tests_of_def tests_defs step split: if_splits)
next
  case Address
  assume "outcome (tests_of d sn k x) = Inr ts"
  with Address show ?thesis
    by (cases x; auto simp: tests_of_def tests_defs step member_defs typeof_def
        split: if_splits)
next
  case HexSequence
  assume "outcome (tests_of d sn k x) = Inr ts"
  with HexSequence show ?thesis
    by (cases x; auto simp: tests_of_def tests_defs step member_defs typeof_def
        split: if_splits)
qed

lemma tests_not_generic:
  "outcome (tests_of d sn k x) \<noteq> Inl (Error (generic_of k))"
proof (cases k)
  case DerivationPath
  then show ?thesis
    by (simp add: tests_of_def generic_of_def derivationPath_tests_error)
next
  case SafeInteger
  then show ?thesis
    by (auto simp: tests_of_def generic_of_def tests_defs step split: if_splits)
next
  case BigNumber
  then show ?thesis
    by (auto simp: tests_of_def generic_of_def tests_defs step split: if_splits)
next
  case Address
  then show ?thesis
    by (cases x; auto simp: tests_of_def generic_of_def tests_defs step member_defs
        typeof_def split: if_splits)
next
  case HexSequence
  then show ?thesis
    by (cases x; auto simp: tests_of_def generic_of_def tests_defs step member_defs
        typeof_def split: if_splits)
qed

lemma validate_tests:
  "validate d sn k x = ebind (tests_of d sn k x) (fail_safe (generic_of k))"
  by (cases k) (simp_all add: validate_def tests_of_def generic_of_def tests_defs
      derivationPathValidator_def)

text \<open>
  C6. With the assertion primitive as documented, for every validator and every argument:
  whenever the fail-safe is reached, the array \<open>validationTests\<close> is not empty and holds
  only true, so the condition of the fail-safe is false there; and the call never raises
  the generic failure of that validator.
\<close>

theorem fail_safe_unreachable:
  "(\<forall>ts. outcome (tests_of d sn k x) = Inr ts \<longrightarrow>
        ts \<noteq> [] \<and> list_all (\<lambda>t. t = True) ts \<and> list_ex (\<lambda>test. test \<noteq> False) ts)
   \<and> outcome (validate d sn k x) \<noteq> Inl (Error (generic_of k))"
proof (intro conjI allI impI)
  fix ts assume r: "outcome (tests_of d sn k x) = Inr ts"
  from tests_all_true [OF r] show "ts \<noteq> []" by simp
  from tests_all_true [OF r] show "list_all (\<lambda>t. t = True) ts" by simp
  from tests_all_true [OF r] show "list_ex (\<lambda>test. test \<noteq> False) ts"
    by (cases ts) auto
next
  show "outcome (validate d sn k x) \<noteq> Inl (Error (generic_of k))"
  proof (cases "outcome (tests_of d sn k x)")
    case (Inl e)
    with tests_not_generic [of d sn k x] show ?thesis
      by (simp add: validate_tests outcome_ebind)
  next
    case (Inr ts)
    from tests_all_true [OF Inr] have "fail_safe (generic_of k) ts = ret True"
      by (simp add: fail_safe_all_true)
    with Inr show ?thesis
      by (simp add: validate_tests outcome_ebind outcome_ret)
  qed
qed

theorem fail_safe_unreachable_witness:
  "outcome (tests_of spec_defaults (\<lambda>v. NaN) SafeInteger (JNum (Num 5))) =
     Inr [True, True, True]
   \<and> [True, True, True] \<noteq> []
   \<and> list_all (\<lambda>t. t = True) [True, True, True]
   \<and> list_ex (\<lambda>test. test \<noteq> False) [True, True, True]
   \<and> outcome (validate spec_defaults (\<lambda>v. NaN) SafeInteger (JNum (Num 5))) = Inr True"
  using fail_safe_unreachable [of spec_defaults "\<lambda>v. NaN" SafeInteger "JNum (Num 5)"]
  by (simp add: tests_of_def validate_def tests_defs run ToNumber_def ge_zero_def
      isSafeInteger_def)

section \<open>Two calls on the same argument\<close>

lemma outcome_assertTruth:
  "outcome (assertTruth e k) = (if e then Inr True else Inl (Error k))"
  by (simp add: outcome_def assertTruth_def)

lemma outcome_segment: "outcome (segment arr i) = Inr (index arr i)"
  by (simp add: outcome_def segment_def)

lemma outcome_try_catch:
  "outcome (try_catch m h) = (case outcome m of Inl e \<Rightarrow> outcome (h e) | Inr x \<Rightarrow> Inr x)"
  by (simp add: outcome_def try_catch_def split: prod.splits sum.splits)

lemma outcome_fail_safe:
  "outcome (fail_safe g ts) =
     (if \<not> list_ex (\<lambda>test. test \<noteq> False) ts then Inl (Error g) else Inr True)"
  by (simp add: fail_safe_def outcome_throw outcome_ret)

lemmas outcomes = outcome_ebind outcome_assertTruth outcome_segment outcome_try_catch
  outcome_fail_safe outcome_ret outcome_throw

lemma thrown_of_simps:
  "thrown_of \<sigma> (Inr x) = Inr x"
  "thrown_of \<sigma> (Inl (Error k)) = Inl (Thrown k (catalog \<sigma> k))"
  "thrown_of \<sigma> (Inl TypeError) = Inl ThrownTypeError"
  by (simp_all add: thrown_of_def)

lemma thrown_of_update: "thrown_of (\<sigma>\<lparr>arrays := A\<rparr>) r = thrown_of \<sigma> r"
  by (simp add: thrown_of_def split: sum.splits js_error.splits)

lemma thrown_of_catalog: "catalog \<sigma>' = catalog \<sigma> \<Longrightarrow> thrown_of \<sigma>' r = thrown_of \<sigma> r"
  by (simp add: thrown_of_def split: sum.splits js_error.splits)

lemma bind_lift:
  "bind_call (lift m) f \<sigma> = (case outcome m of
       Inl e \<Rightarrow> (thrown_of \<sigma> (Inl e), \<sigma>)
     | Inr x \<Rightarrow> f x \<sigma>)"
  by (simp add: bind_call_def lift_def thrown_of_def split: sum.splits js_error.splits)

lemma bind_new_array:
  "bind_call new_array f \<sigma> = f (length (arrays \<sigma>)) (\<sigma>\<lparr>arrays := arrays \<sigma> @ [[]]\<rparr>)"
  by (simp add: bind_call_def new_array_def)

lemma bind_get_constants:
  "bind_call get_constants f \<sigma> = f (constants \<sigma>) \<sigma>"
  by (simp add: bind_call_def get_constants_def)

lemma bind_unit: "bind_call (unit_call x) f \<sigma> = f x \<sigma>"
  by (simp add: bind_call_def unit_call_def)

lemma bind_push_assert:
  "bind_call (push_assert (length A) e k) f (\<sigma>\<lparr>arrays := A @ [ts]\<rparr>) =
     (if e then f () (\<sigma>\<lparr>arrays := A @ [ts @ [True]]\<rparr>)
      else (Inl (Thrown k (catalog \<sigma> k)), \<sigma>\<lparr>arrays := A @ [ts]\<rparr>))"
  by (simp add: bind_call_def push_assert_def lift_def push_def outcome_assertTruth
      thrown_of_def)

lemma fail_safe_call_last:
  "fail_safe_call (length A) g (\<sigma>\<lparr>arrays := A @ [ts]\<rparr>) =
     (thrown_of \<sigma> (outcome (fail_safe g ts)), \<sigma>\<lparr>arrays := A @ [ts]\<rparr>)"
  by (simp add: fail_safe_call_def bind_call_def some_not_false_def lift_def unit_call_def
      outcome_fail_safe outcome_throw thrown_of_def)

lemma bind_try_lift:
  "bind_call (try_call (lift m) h) f \<sigma> = (case outcome m of
       Inl e \<Rightarrow> bind_call (h (case e of Error k \<Rightarrow> Thrown k (catalog \<sigma> k)
                                    | TypeError \<Rightarrow> ThrownTypeError)) f \<sigma>
     | Inr x \<Rightarrow> f x \<sigma>)"
  by (simp add: bind_call_def try_call_def lift_def thrown_of_def
      split: sum.splits js_error.splits)

lemma bind_assoc_call:
  "bind_call (bind_call m f) g = bind_call m (\<lambda>x. bind_call (f x) g)"
  by (rule ext) (simp add: bind_call_def split: prod.splits sum.splits)

lemmas calls = bind_assoc_call bind_lift bind_new_array bind_get_constants bind_unit
  bind_push_assert fail_safe_call_last bind_try_lift thrown_of_simps thrown_of_update

lemma framedI: "framed \<sigma> (thrown_of \<sigma> r, \<sigma>\<lparr>arrays := arrays \<sigma> @ [ts]\<rparr>) r"
  by (simp add: framed_def)

lemma framedI_Thrown:
  "framed \<sigma> (Inl (Thrown k (catalog \<sigma> k)), \<sigma>\<lparr>arrays := arrays \<sigma> @ [ts]\<rparr>) (Inl (Error k))"
  by (simp add: framed_def thrown_of_def)

lemma framedI_TypeError:
  "framed \<sigma> (Inl ThrownTypeError, \<sigma>\<lparr>arrays := arrays \<sigma> @ [ts]\<rparr>) (Inl TypeError)"
  by (simp add: framed_def thrown_of_def)

lemma framedI_Inr:
  "framed \<sigma> (Inr b, \<sigma>\<lparr>arrays := arrays \<sigma> @ [ts]\<rparr>) (Inr b)"
  by (simp add: framed_def thrown_of_def)

lemmas framedIs = framedI framedI_Thrown framedI_TypeError framedI_Inr

lemma safeInteger_call:
  "framed \<sigma> (safeIntegerValidator_call sn x \<sigma>) (outcome (safeIntegerValidator sn x))"
  by (simp add: safeIntegerValidator_call_def calls tests_defs outcomes framedIs)

lemma bigNumber_call:
  "framed \<sigma> (bigNumberValidator_call x \<sigma>) (outcome (bigNumberValidator x))"
  by (simp add: bigNumberValidator_call_def calls tests_defs outcomes framedIs)

lemma hexSequence_call:
  "framed \<sigma> (hexSequenceValidator_call x \<sigma>)
     (outcome (hexSequenceValidator (constants \<sigma>) x))"
  by (simp add: hexSequenceValidator_call_def calls tests_defs outcomes framedIs
      split: sum.splits js_error.splits)

lemma address_call:
  "framed \<sigma> (addressValidator_call x \<sigma>) (outcome (addressValidator (constants \<sigma>) x))"
  by (simp add: addressValidator_call_def calls tests_defs outcomes framedIs
      split: sum.splits js_error.splits)

lemma derivationPath_call:
  "framed \<sigma> (derivationPathValidator_call x \<sigma>)
     (outcome (derivationPathValidator (constants \<sigma>) x))"
  by (simp add: derivationPathValidator_call_def calls derivationPathValidator_def
      derivationPathTests_def outcomes framedIs Let_def
      split: sum.splits js_error.splits)

lemma validate_call_framed:
  "framed \<sigma> (validate_call sn k x \<sigma>) (outcome (validate (constants \<sigma>) sn k x))"
  by (cases k) (simp_all add: validate_call_def validate_def derivationPath_call
      safeInteger_call bigNumber_call address_call hexSequence_call)

text \<open>
  A call does depend on the store in general: two allocations in a row return different
  addresses.
\<close>

lemma new_array_not_same: "fst (new_array (snd (new_array \<sigma>))) \<noteq> fst (new_array \<sigma>)"
  by (simp add: new_array_def)

text \<open>
  C9. For every validator, every argument and every store: the call of the validator in
  the store that a first call on the same argument has left has the same result as that
  first call, true or the failure of the same entry of the catalog with the same text.
  The result is the outcome of the validator on the constants of the store; the first
  call leaves the catalog and the constants as they were, and the arrays that existed
  before it untouched, with one array more.
\<close>

theorem second_call_same:
  "fst (validate_call sn k x (snd (validate_call sn k x \<sigma>))) = fst (validate_call sn k x \<sigma>)
   \<and> fst (validate_call sn k x \<sigma>) = thrown_of \<sigma> (outcome (validate (constants \<sigma>) sn k x))
   \<and> catalog (snd (validate_call sn k x \<sigma>)) = catalog \<sigma>
   \<and> constants (snd (validate_call sn k x \<sigma>)) = constants \<sigma>
   \<and> butlast (arrays (snd (validate_call sn k x \<sigma>))) = arrays \<sigma>"
proof -
  define \<sigma>' where "\<sigma>' = snd (validate_call sn k x \<sigma>)"
  have first: "framed \<sigma> (validate_call sn k x \<sigma>) (outcome (validate (constants \<sigma>) sn k x))"
    by (rule validate_call_framed)
  have second: "framed \<sigma>' (validate_call sn k x \<sigma>')
      (outcome (validate (constants \<sigma>') sn k x))"
    by (rule validate_call_framed)
  from first have same: "catalog \<sigma>' = catalog \<sigma>" "constants \<sigma>' = constants \<sigma>"
    by (simp_all add: framed_def \<sigma>'_def)
  from second same have "fst (validate_call sn k x \<sigma>') =
      thrown_of \<sigma>' (outcome (validate (constants \<sigma>) sn k x))"
    by (simp add: framed_def)
  also from same(1) have "\<dots> = thrown_of \<sigma> (outcome (validate (constants \<sigma>) sn k x))"
    by (rule thrown_of_catalog)
  finally have "fst (validate_call sn k x \<sigma>') =
      thrown_of \<sigma> (outcome (validate (constants \<sigma>) sn k x))" .
  with first show ?thesis
    by (simp add: framed_def \<sigma>'_def)
qed

section \<open>The grammar of derivation paths\<close>

lemma derivationPath_invariant:
  "outcome (derivationPathValidator d (JStr s)) = Inr True \<Longrightarrow>
     length (js_split s (DELIMITER (PATH d))) = 4
     \<and> length (js_split (js_split s (DELIMITER (PATH d)) ! 3) (SPLITTER d)) \<le> 2"
proof (cases "length (js_split s (DELIMITER (PATH d))) = 4")
  case False
  assume "outcome (derivationPathValidator d (JStr s)) = Inr True"
  with False show ?thesis
    by (simp add: path_defs step member_defs)
next
  case True
  assume r: "outcome (derivationPathValidator d (JStr s)) = Inr True"
  from True obtain a b c e where segs: "js_split s (DELIMITER (PATH d)) = [a, b, c, e]"
    by (rule length_4E)
  from r show ?thesis
    by (auto simp add: path_defs step member_defs segs fail_safe_def Let_def
        split: if_splits option.splits)
qed

lemma path_five_segments:
  "derivationPathValidator spec_defaults (JStr ''m/44'/60/0/0'') =
     ([Assert DerivationPath_notValidParts False], Inl (Error DerivationPath_notValidParts))"
  by (simp add: path_defs run member_defs spec_defaults_def string_defs)

lemma path_six_seven_segments:
  "outcome (derivationPathValidator spec_defaults (JStr ''m/44'/60/0/0/1'')) =
     Inl (Error DerivationPath_notValidParts)"
  "outcome (derivationPathValidator spec_defaults (JStr ''m/44'/60/0/0/1/2'')) =
     Inl (Error DerivationPath_notValidParts)"
  by (simp_all add: path_defs run member_defs spec_defaults_def string_defs Let_def)

lemma path_four_segments:
  "outcome (derivationPathValidator spec_defaults (JStr ''m'44/60/0/0'')) = Inr True"
  by (simp add: path_defs run member_defs spec_defaults_def string_defs Let_def)

lemma path_two_indexes:
  "outcome (derivationPathValidator spec_defaults (JStr ''m'44/60/0/0'1'')) = Inr True"
  by (simp add: path_defs run member_defs spec_defaults_def string_defs Let_def)

lemma path_three_indexes:
  "outcome (derivationPathValidator spec_defaults (JStr ''m'44/60/0/0'1'2'')) =
     Inl (Error DerivationPath_notValidAccountIndex)"
  by (simp add: path_defs run member_defs spec_defaults_def string_defs Let_def)

text \<open>
  With the delimiter apostrophe-slash and the sub-delimiter slash the validator reads the
  hardened notation: the first two paths are accepted, the third has one index too many,
  and the first path of C1 has two top-level segments only.
\<close>

lemma hardened_paths:
  "outcome (derivationPathValidator hardened_defaults (JStr ''m/44'/60'/0'/0'')) = Inr True"
  "outcome (derivationPathValidator hardened_defaults (JStr ''m/44'/60'/0'/0/1'')) = Inr True"
  "outcome (derivationPathValidator hardened_defaults (JStr ''m/44'/60'/0'/0/1/2'')) =
     Inl (Error DerivationPath_notValidAccountIndex)"
  "outcome (derivationPathValidator hardened_defaults (JStr ''m/44'/60/0/0'')) =
     Inl (Error DerivationPath_notValidParts)"
  by (simp_all add: path_defs run member_defs hardened_defaults_def spec_defaults_def
      string_defs Let_def)

text \<open>
  C1, as stated, fails on its first path: with the delimiter slash the path
  \<open>m/44'/60/0/0\<close> has five top-level segments, and the count assertion raises.
\<close>

theorem derivationPath_slash_path_rejected:
  "derivationPathValidator spec_defaults (JStr ''m/44'/60/0/0'') =
     ([Assert DerivationPath_notValidParts False], Inl (Error DerivationPath_notValidParts))
   \<and> length (js_split ''m/44'/60/0/0'' (DELIMITER (PATH spec_defaults))) = 5"
  by (simp add: path_five_segments) (simp add: spec_defaults_def string_defs)

text \<open>
  C1, as the code has it. With the delimiter slash and the sub-delimiter apostrophe, the
  three paths of the claim have five, six and seven top-level segments and raise the
  failure of the entry \<open>notValidParts\<close>. The header key and the purpose share the first
  segment: \<open>m'44/60/0/0\<close> returns true, \<open>m'44/60/0/0'1\<close> (two sub-segments in the
  fourth segment) returns true, and \<open>m'44/60/0/0'1'2\<close> raises the failure of the entry
  \<open>notValidAccountIndex\<close>. With the delimiter apostrophe-slash and the sub-delimiter
  slash, \<open>m/44'/60'/0'/0\<close> and \<open>m/44'/60'/0'/0/1\<close> return true and
  \<open>m/44'/60'/0'/0/1/2\<close> raises the failure of \<open>notValidAccountIndex\<close>. For all
  constants: a string on which the validator returns true splits into exactly four
  top-level segments, and its fourth segment into at most two sub-segments.
\<close>

theorem derivationPath_grammar:
  "outcome (derivationPathValidator spec_defaults (JStr ''m/44'/60/0/0'')) =
     Inl (Error DerivationPath_notValidParts)
   \<and> outcome (derivationPathValidator spec_defaults (JStr ''m/44'/60/0/0/1'')) =
     Inl (Error DerivationPath_notValidParts)
   \<and> outcome (derivationPathValidator spec_defaults (JStr ''m/44'/60/0/0/1/2'')) =
     Inl (Error DerivationPath_notValidParts)
   \<and> outcome (derivationPathValidator spec_defaults (JStr ''m'44/60/0/0'')) = Inr True
   \<and> outcome (derivationPathValidator spec_defaults (JStr ''m'44/60/0/0'1'')) = Inr True
   \<and> outcome (derivationPathValidator spec_defaults (JStr ''m'44/60/0/0'1'2'')) =
     Inl (Error DerivationPath_notValidAccountIndex)
   \<and> outcome (derivationPathValidator hardened_defaults (JStr ''m/44'/60'/0'/0'')) = Inr True
   \<and> outcome (derivationPathValidator hardened_defaults (JStr ''m/44'/60'/0'/0/1'')) =
     Inr True
   \<and> outcome (derivationPathValidator hardened_defaults (JStr ''m/44'/60'/0'/0/1/2'')) =
     Inl (Error DerivationPath_notValidAccountIndex)
   \<and> (outcome (derivationPathValidator d (JStr s)) = Inr True \<longrightarrow>
        length (js_split s (DELIMITER (PATH d))) = 4
        \<and> length (js_split (js_split s (DELIMITER (PATH d)) ! 3) (SPLITTER d)) \<le> 2)"
proof -
  have invariant: "outcome (derivationPathValidator d (JStr s)) = Inr True \<longrightarrow>
        length (js_split s (DELIMITER (PATH d))) = 4
        \<and> length (js_split (js_split s (DELIMITER (PATH d)) ! 3) (SPLITTER d)) \<le> 2"
    using derivationPath_invariant [of d s] by blast
  then show ?thesis
    by (simp add: path_five_segments outcome_Pair path_six_seven_segments
        path_four_segments path_two_indexes path_three_indexes hardened_paths)
qed

theorem derivationPath_grammar_witness:
  "outcome (derivationPathValidator spec_defaults (JStr ''m'44/60/0/0'1'')) = Inr True
   \<and> length (js_split ''m'44/60/0/0'1'' (DELIMITER (PATH spec_defaults))) = 4
   \<and> length (js_split (js_split ''m'44/60/0/0'1'' (DELIMITER (PATH spec_defaults)) ! 3)
        (SPLITTER spec_defaults)) \<le> 2"
  using derivationPath_grammar [of spec_defaults "''m'44/60/0/0'1''"]
  by (simp add: path_two_indexes)

section \<open>Hex sequences\<close>

lemma hex_string_pattern_language:
  "hex_string_pattern s \<longleftrightarrow>
     (\<exists>body. (s = body \<or> s = ''0x'' @ body) \<and> even (length body) \<and> list_all is_hex body)"
proof
  assume "hex_string_pattern s"
  then consider "even_hex s" | "take 2 s = ''0x''" "even_hex (drop 2 s)"
    by (auto simp: hex_string_pattern_def)
  then show "\<exists>body. (s = body \<or> s = ''0x'' @ body) \<and> even (length body)
               \<and> list_all is_hex body"
  proof cases
    case 1
    then show ?thesis by (auto simp: even_hex_def)
  next
    case 2
    have "s = take 2 s @ drop 2 s" by simp
    with 2 have "s = ''0x'' @ drop 2 s" by metis
    with 2 show ?thesis unfolding even_hex_def by blast
  qed
next
  assume "\<exists>body. (s = body \<or> s = ''0x'' @ body) \<and> even (length body)
            \<and> list_all is_hex body"
  then show "hex_string_pattern s"
    by (auto simp: hex_string_pattern_def even_hex_def)
qed

lemma hexSequence_accepts:
  "outcome (hexSequenceValidator d v) = Inr True \<longleftrightarrow>
     (\<exists>s. v = JStr s \<and> HEX_STRING (MATCH d) s)"
  by (cases v; simp add: tests_defs run member_defs typeof_def)

text \<open>
  C8. \<open>hexSequenceValidator("0xdeadbeef")\<close> returns true,
  \<open>hexSequenceValidator("not-hex")\<close> raises the failure of the entry \<open>notFormat\<close>,
  \<open>hexSequenceValidator(42)\<close> raises the failure of the entry \<open>notStringSequence\<close>,
                              and
  the arguments on which the validator returns true are the strings made of an optional
  prefix 0x and a body of hexadecimal characters of even length.
\<close>

theorem hexSequence_examples:
  "outcome (hexSequenceValidator spec_defaults (JStr ''0xdeadbeef'')) = Inr True
   \<and> outcome (hexSequenceValidator spec_defaults (JStr ''not-hex'')) =
       Inl (Error HexSequence_notFormat)
   \<and> outcome (hexSequenceValidator spec_defaults (JNum (Num 42))) =
       Inl (Error HexSequence_notStringSequence)
   \<and> (outcome (hexSequenceValidator spec_defaults v) = Inr True \<longleftrightarrow>
        (\<exists>body. (v = JStr body \<or> v = JStr (''0x'' @ body))
                 \<and> even (length body) \<and> list_all is_hex body))"
proof -
  have "outcome (hexSequenceValidator spec_defaults v) = Inr True \<longleftrightarrow>
          (\<exists>s. v = JStr s \<and> hex_string_pattern s)"
    by (simp add: hexSequence_accepts spec_defaults_def)
  also have "\<dots> \<longleftrightarrow> (\<exists>body. (v = JStr body \<or> v = JStr (''0x'' @ body))
                 \<and> even (length body) \<and> list_all is_hex body)"
    by (auto simp: hex_string_pattern_language)
  finally have language: "outcome (hexSequenceValidator spec_defaults v) = Inr True \<longleftrightarrow>
        (\<exists>body. (v = JStr body \<or> v = JStr (''0x'' @ body))
                 \<and> even (length body) \<and> list_all is_hex body)" .
  have examples: "outcome (hexSequenceValidator spec_defaults (JStr ''0xdeadbeef'')) = Inr True
   \<and> outcome (hexSequenceValidator spec_defaults (JStr ''not-hex'')) =
       Inl (Error HexSequence_notFormat)
   \<and> outcome (hexSequenceValidator spec_defaults (JNum (Num 42))) =
       Inl (Error HexSequence_notStringSequence)"
    by (simp add: tests_defs run member_defs typeof_def spec_defaults_def string_defs)
  from examples language show ?thesis by blast
qed

section \<open>Addresses\<close>

lemma address_wrong_length:
  "length s \<noteq> 40 \<Longrightarrow> length s \<noteq> 42 \<Longrightarrow>
     addressValidator d (JStr s) =
       ([Assert Address_notStringSequence True, Assert Address_notStringSequence False],
        Inl (Error Address_notStringSequence))"
  by (simp add: tests_defs run member_defs typeof_def)

text \<open>
  C5 does not hold of the code. The assertion on the length builds its message from the
  entry \<open>notStringSequence\<close>, the entry of the assertion before it, and the entry
  \<open>notLength\<close> of the catalog is never used: a string of 39 characters passes the
  assertion on the type and raises a failure with the text of \<open>notStringSequence\<close>.
\<close>

theorem address_length_message:
  "addressValidator d (JStr ''5aAeb6053F3E94C9b9A09f33669435E7Ef1BeAe'') =
     ([Assert Address_notStringSequence True, Assert Address_notStringSequence False],
      Inl (Error Address_notStringSequence))
   \<and> length ''5aAeb6053F3E94C9b9A09f33669435E7Ef1BeAe'' = 39
   \<and> validators Address_notStringSequence \<noteq> validators Address_notLength"
  by (simp add: tests_defs run member_defs typeof_def)

subsection \<open>The digest of the address of the examples\<close>

text \<open>
  The 24 rounds of the permutation on the one block of the 40 lowercase digits, one lemma
  per round, and the digest they give.
\<close>

lemmas round_defs = keccak_round_def iota_def chi_def rho_pi_def theta_def theta_x_def
  theta_d_def theta_c_def rotl64_def

lemma keccak_round_0:
  "keccak_round 0x0000000000000001
     (0x3530366265616135, 0x3963343965336633, 0x3333663930613962, 0x3765353334393636,
      0x6465616562316665, 0x1, 0, 0, 0, 0, 0, 0, 0, 0, 0, 0, 0x8000000000000000, 0, 0, 0, 0, 0,
      0, 0, 0) =
     (0x2BD3C5FDCD643316, 0xA7130577DAAC074E, 0x4853813D02F2782B, 0xBFFC803FB53F3702,
      0x4651FFBEDF969709, 0x2C03AC39EED1C91C, 0xDD19FDFDD8A7D0F1, 0x2D99693C6215715B,
      0x667C9E5AD303C8A0, 0x6989684DE08C310A, 0xD1C39C7AC0958B8E, 0xEA4667D7FA429BE1,
      0xC7EE07EB51FFF3C9, 0xD578EBFEBAD4FF5F, 0xE4AA2DFB84A4EFD, 0xCE6614975D8441C1,
      0x217D26916B10BBEA, 0x5B383912FE9FC16C, 0xBB2B82B18D24EBD4, 0xA9E35984D1C493CF,
      0x50A48D350D4CF6CA, 0x5679FCD33DE805FA, 0x3DF1C76E9220BB7E, 0x9F700234CF522F5E,
      0xC9029882663E4EF1)"
  by (simp add: round_defs)

lemma keccak_round_1:
  "keccak_round 0x0000000000008082
     (0x2BD3C5FDCD643316, 0xA7130577DAAC074E, 0x4853813D02F2782B, 0xBFFC803FB53F3702,
      0x4651FFBEDF969709, 0x2C03AC39EED1C91C, 0xDD19FDFDD8A7D0F1, 0x2D99693C6215715B,
      0x667C9E5AD303C8A0, 0x6989684DE08C310A, 0xD1C39C7AC0958B8E, 0xEA4667D7FA429BE1,
      0xC7EE07EB51FFF3C9, 0xD578EBFEBAD4FF5F, 0xE4AA2DFB84A4EFD, 0xCE6614975D8441C1,
      0x217D26916B10BBEA, 0x5B383912FE9FC16C, 0xBB2B82B18D24EBD4, 0xA9E35984D1C493CF,
      0x50A48D350D4CF6CA, 0x5679FCD33DE805FA, 0x3DF1C76E9220BB7E, 0x9F700234CF522F5E,
      0xC9029882663E4EF1) =
     (0x3839F1E6A4EF60DA, 0x6346A1A131957D2C, 0x1D420E9345465613, 0x4E66A2C0BFF64664,
      0xCC2B67DD4AE60100, 0x799ACE8AF75DB18D, 0x5821D035032920E8, 0xE17EB27C6AE34693,
      0xE7065CCCD2BE4BF2, 0xD75EFD3C8015903B, 0xD43CDC8F2D33812C, 0x670126BC649AFCF6,
      0x750D4E3CFD23BD2B, 0xE2C4B7A3ABDA2630, 0xED408124DC1F03DD, 0xCD14D532868A46B1,
      0x7A99A41A768B30DA, 0x62D7B9B76165E9, 0xC33EB289DCEE748B, 0x45587AF3CEF6818C,
      0xFD948BCFC5DF8482, 0xDCB00BB3C627F851, 0xC6490D5770ADF4AA, 0x393438802A958440,
      0x5DCAFFBCDD1F709B)"
  by (simp add: round_defs)

lemma keccak_round_2:
  "keccak_round 0x800000000000808A
     (0x3839F1E6A4EF60DA, 0x6346A1A131957D2C, 0x1D420E9345465613, 0x4E66A2C0BFF64664,
      0xCC2B67DD4AE60100, 0x799ACE8AF75DB18D, 0x5821D035032920E8, 0xE17EB27C6AE34693,
      0xE7065CCCD2BE4BF2, 0xD75EFD3C8015903B, 0xD43CDC8F2D33812C, 0x670126BC649AFCF6,
      0x750D4E3CFD23BD2B, 0xE2C4B7A3ABDA2630, 0xED408124DC1F03DD, 0xCD14D532868A46B1,
      0x7A99A41A768B30DA, 0x62D7B9B76165E9, 0xC33EB289DCEE748B, 0x45587AF3CEF6818C,
      0xFD948BCFC5DF8482, 0xDCB00BB3C627F851, 0xC6490D5770ADF4AA, 0x393438802A958440,
      0x5DCAFFBCDD1F709B) =
     (0xE101D72F34F4DA43, 0xB8BF36A1A3D53562, 0xD293CF66FA5E4B51, 0xD6186FB9FC2C3D3C,
      0x4D3FA58760D8E890, 0xAA0A63F7FCC23A7C, 0x4124F556BC5C8CFD, 0x70A6BE763FC18C36,
      0xEB6849B2E82EF63F, 0x4B8FFA535ECE41F9, 0xB492880A5DEA2E69, 0xD3B1247EEEB82CE4,
      0x571238236E0AD44, 0xE901E107BBD651F6, 0x9A395349F207CEA5, 0x332256FEA1E87FB2,
      0xA0D008E62F2A54BB, 0xA0AE00EEC86DA837, 0x643E0ECE1DCDCE38, 0x8F6B612DB337D57E,
      0xE2500C5CB89FE25F, 0x6CBACE80E387DFCC, 0x27FD88DA6C145669, 0x56FC63AEE976D6C5,
      0x82C53AFF07FC5227)"
  by (simp add: round_defs)

lemma keccak_round_3:
  "keccak_round 0x8000000080008000
     (0xE101D72F34F4DA43, 0xB8BF36A1A3D53562, 0xD293CF66FA5E4B51, 0xD6186FB9FC2C3D3C,
      0x4D3FA58760D8E890, 0xAA0A63F7FCC23A7C, 0x4124F556BC5C8CFD, 0x70A6BE763FC18C36,
      0xEB6849B2E82EF63F, 0x4B8FFA535ECE41F9, 0xB492880A5DEA2E69, 0xD3B1247EEEB82CE4,
      0x571238236E0AD44, 0xE901E107BBD651F6, 0x9A395349F207CEA5, 0x332256FEA1E87FB2,
      0xA0D008E62F2A54BB, 0xA0AE00EEC86DA837, 0x643E0ECE1DCDCE38, 0x8F6B612DB337D57E,
      0xE2500C5CB89FE25F, 0x6CBACE80E387DFCC, 0x27FD88DA6C145669, 0x56FC63AEE976D6C5,
      0x82C53AFF07FC5227) =
     (0x2C26CABE078782CF, 0xED3EE47F4F2EE9ED, 0x1CB25952A2A7AFED, 0xF6752D5D4FCCCC68,
      0x144591315DB6E748, 0x15A5D60E1D4480BE, 0x49B2D67643474E39, 0x49ACE2E7D4C73F21,
      0x91DFF9C09A7F5181, 0x49DB56CDFCD1E78F, 0xB2FFC13B43B4AD6F, 0xE077F09D2E858AC2,
      0x1F0A870DB0D84EE2, 0x82C6A2FA0E500037, 0x2336FDB0DB4FFD4C, 0x54C60E5F76BA5688,
      0xDA2ECF887AD6376F, 0xD6CD0F30FF1416F6, 0xFAEFABFF38A557DC, 0x315CC4179E0AE5E4,
      0x356C4B94765FF45B, 0xB4F688D3C5A353D5, 0x17CDEFB2AA18E268, 0x234374D952C59B07,
      0x8968E6F985A698B4)"
  by (simp add: round_defs)

lemma keccak_round_4:
  "keccak_round 0x000000000000808B
     (0x2C26CABE078782CF, 0xED3EE47F4F2EE9ED, 0x1CB25952A2A7AFED, 0xF6752D5D4FCCCC68,
      0x144591315DB6E748, 0x15A5D60E1D4480BE, 0x49B2D67643474E39, 0x49ACE2E7D4C73F21,
      0x91DFF9C09A7F5181, 0x49DB56CDFCD1E78F, 0xB2FFC13B43B4AD6F, 0xE077F09D2E858AC2,
      0x1F0A870DB0D84EE2, 0x82C6A2FA0E500037, 0x2336FDB0DB4FFD4C, 0x54C60E5F76BA5688,
      0xDA2ECF887AD6376F, 0xD6CD0F30FF1416F6, 0xFAEFABFF38A557DC, 0x315CC4179E0AE5E4,
      0x356C4B94765FF45B, 0xB4F688D3C5A353D5, 0x17CDEFB2AA18E268, 0x234374D952C59B07,
      0x8968E6F985A698B4) =
     (0x92FFF9A25DB319E7, 0x116C5A5E4619A3D3, 0x32E802A526020A73, 0x701CDB0C924E9924,
      0x1ECE2394F6CEBA92, 0x30D70E66F7006803, 0x7C1783A0E4F80BE8, 0x412313350A15B659,
      0xBC8A7CBA08F2BC87, 0x8850617CA8AE255, 0x2BB3188002A1B69B, 0xB2CD6E421A930B86,
      0x4A1DFB757349509A, 0x305EDE8CCD261ADA, 0xE2A8D1ED0B769F99, 0x82BA0D6F3FE8E805,
      0xB315335C774C11B1, 0x2343CE59FE4B8072, 0x6EE680A3EE4142F0, 0x7D245D09E7066B80,
      0x67D423E2B79C09D2, 0x4BCBEF024D6DA52D, 0xD47F4977E8F61149, 0xCB4A17892830D44A,
      0x202D7B92A5054DC8)"
  by (simp add: round_defs)

lemma keccak_round_5:
  "keccak_round 0x0000000080000001
     (0x92FFF9A25DB319E7, 0x116C5A5E4619A3D3, 0x32E802A526020A73, 0x701CDB0C924E9924,
      0x1ECE2394F6CEBA92, 0x30D70E66F7006803, 0x7C1783A0E4F80BE8, 0x412313350A15B659,
      0xBC8A7CBA08F2BC87, 0x8850617CA8AE255, 0x2BB3188002A1B69B, 0xB2CD6E421A930B86,
      0x4A1DFB757349509A, 0x305EDE8CCD261ADA, 0xE2A8D1ED0B769F99, 0x82BA0D6F3FE8E805,
      0xB315335C774C11B1, 0x2343CE59FE4B8072, 0x6EE680A3EE4142F0, 0x7D245D09E7066B80,
      0x67D423E2B79C09D2, 0x4BCBEF024D6DA52D, 0xD47F4977E8F61149, 0xCB4A17892830D44A,
      0x202D7B92A5054DC8) =
     (0x15457ABE2E44D430, 0x9D2D68D16105BC5C, 0xED25EBFDE2653696, 0x600858ADAEFE6DBA,
      0xDA41D49EBCDC96C, 0x9714A76BBF417F6A, 0x20D0BA946868B027, 0x2472FA1391BDCC5E,
      0x8A85E86EA3F0499F, 0xE07AC746C906CA39, 0x9ACEC043F270BCD1, 0x8189BF9EE4F9AE65,
      0x4A965D43E34AC22D, 0xEBA00B36C0EFEFBC, 0xBB6A25871E16009C, 0x21BF48708DFA4A77,
      0x65777C3E5EF2AF18, 0x71C226BCC7D9C505, 0x2DE425C7E61AD161, 0xA41640D2DA8B0563,
      0x1FF6878B3EB9559, 0x46D2F8104DD53111, 0x291CD005E8FB77AF, 0xFE1E8AC300D0AF29,
      0x7BAB47F5B721CA4A)"
  by (simp add: round_defs)

lemma keccak_round_6:
  "keccak_round 0x8000000080008081
     (0x15457ABE2E44D430, 0x9D2D68D16105BC5C, 0xED25EBFDE2653696, 0x600858ADAEFE6DBA,
      0xDA41D49EBCDC96C, 0x9714A76BBF417F6A, 0x20D0BA946868B027, 0x2472FA1391BDCC5E,
      0x8A85E86EA3F0499F, 0xE07AC746C906CA39, 0x9ACEC043F270BCD1, 0x8189BF9EE4F9AE65,
      0x4A965D43E34AC22D, 0xEBA00B36C0EFEFBC, 0xBB6A25871E16009C, 0x21BF48708DFA4A77,
      0x65777C3E5EF2AF18, 0x71C226BCC7D9C505, 0x2DE425C7E61AD161, 0xA41640D2DA8B0563,
      0x1FF6878B3EB9559, 0x46D2F8104DD53111, 0x291CD005E8FB77AF, 0xFE1E8AC300D0AF29,
      0x7BAB47F5B721CA4A) =
     (0x3C354FE429D6226, 0x57D2FADB1E2629A6, 0x7EACCE87EEEAC06D, 0xF05E38F25DBD9DC3,
      0xDE0E83B1F6966230, 0x183847D35B9801FF, 0x4F58B0EEE951E3C, 0x732F7A3AFB0A80F8,
      0xE7764893E4212EA2, 0xF2E9EA0EE827D403, 0x5F2B223CA601C0CC, 0x854A9F0D5F465AA0,
      0xF96B0158E21B5DD0, 0x5C251F4F6921F88F, 0x8CB4FEEAD638E776, 0xA1017A765D775798,
      0x6509AAC613F84333, 0xA3FAA75AF1CC761D, 0xF395DAB0FD3A85DE, 0xB33B92C18B950FDD,
      0x67C489F69300780A, 0xD4CB4F3B81D1FAD, 0xDA10871D94A4B1EB, 0x42E97B4C2A662003,
      0x28EB829CBF1CB30A)"
  by (simp add: round_defs)

lemma keccak_round_7:
  "keccak_round 0x8000000000008009
     (0x3C354FE429D6226, 0x57D2FADB1E2629A6, 0x7EACCE87EEEAC06D, 0xF05E38F25DBD9DC3,
      0xDE0E83B1F6966230, 0x183847D35B9801FF, 0x4F58B0EEE951E3C, 0x732F7A3AFB0A80F8,
      0xE7764893E4212EA2, 0xF2E9EA0EE827D403, 0x5F2B223CA601C0CC, 0x854A9F0D5F465AA0,
      0xF96B0158E21B5DD0, 0x5C251F4F6921F88F, 0x8CB4FEEAD638E776, 0xA1017A765D775798,
      0x6509AAC613F84333, 0xA3FAA75AF1CC761D, 0xF395DAB0FD3A85DE, 0xB33B92C18B950FDD,
      0x67C489F69300780A, 0xD4CB4F3B81D1FAD, 0xDA10871D94A4B1EB, 0x42E97B4C2A662003,
      0x28EB829CBF1CB30A) =
     (0x8191263DB7FD68B6, 0x320FA9CEDE2C9BAC, 0x17899F1B136C0AEA, 0x2472D538AF917A59,
      0x6037DF44D10DB6AC, 0xD378DCA5C0AF8AB4, 0x17F08A931B90C37F, 0xD7CB273A0286D3B8,
      0x8E3AFF26686358C5, 0x1E9B7F58A0BEAA8F, 0x1F86051C95E0218C, 0x78DDCCF0B4EBEE8A,
      0x6407EB737948411B, 0x62DD13729758C1C9, 0xDC904463F95FCE19, 0x8CF8080600FA627,
      0x7F886B467AC06492, 0x796B64CC7B8D8054, 0xED0DFD07CDED76DA, 0x67B89EA561E0E439,
      0x8819ECE3DE56CF63, 0xBA3C3B2D106619D5, 0xCF49552B665E1D3D, 0x27BA0FADAE730B1B,
      0x47F76597B12589A2)"
  by (simp add: round_defs)

lemma keccak_round_8:
  "keccak_round 0x000000000000008A
     (0x8191263DB7FD68B6, 0x320FA9CEDE2C9BAC, 0x17899F1B136C0AEA, 0x2472D538AF917A59,
      0x6037DF44D10DB6AC, 0xD378DCA5C0AF8AB4, 0x17F08A931B90C37F, 0xD7CB273A0286D3B8,
      0x8E3AFF26686358C5, 0x1E9B7F58A0BEAA8F, 0x1F86051C95E0218C, 0x78DDCCF0B4EBEE8A,
      0x6407EB737948411B, 0x62DD13729758C1C9, 0xDC904463F95FCE19, 0x8CF8080600FA627,
      0x7F886B467AC06492, 0x796B64CC7B8D8054, 0xED0DFD07CDED76DA, 0x67B89EA561E0E439,
      0x8819ECE3DE56CF63, 0xBA3C3B2D106619D5, 0xCF49552B665E1D3D, 0x27BA0FADAE730B1B,
      0x47F76597B12589A2) =
     (0x334F66FA5A2F4186, 0xB63F4FC96CE7DB49, 0x7DFA9D6A6994E0F, 0x358919EDDF287196,
      0x2657D7F1B5685D78, 0x346A3A2A623F3895, 0x2D02B5C63E4145B1, 0x24B363CFD110C4E5,
      0x2C0B22DC67BE5909, 0x6B73CA783BB89949, 0x8E55DFE6C02AEE41, 0x8751D497C48E63F2,
      0xAA2CB767CC387D9E, 0x6F03956F432D2ABF, 0x7088C66A9C7DEC8C, 0x6AFEB7E4E6DB319E,
      0xF2583186306AB6D2, 0xF259CC5A89720367, 0x248D43A6D6B15256, 0xEC313B51824B9731,
      0xAED42DF63BBD2A1F, 0x52512E8487D62297, 0x9A220CA278EA50D9, 0xA9CD7E2361C1981D,
      0x1C25E6831DFC65FD)"
  by (simp add: round_defs)

lemma keccak_round_9:
  "keccak_round 0x0000000000000088
     (0x334F66FA5A2F4186, 0xB63F4FC96CE7DB49, 0x7DFA9D6A6994E0F, 0x358919EDDF287196,
      0x2657D7F1B5685D78, 0x346A3A2A623F3895, 0x2D02B5C63E4145B1, 0x24B363CFD110C4E5,
      0x2C0B22DC67BE5909, 0x6B73CA783BB89949, 0x8E55DFE6C02AEE41, 0x8751D497C48E63F2,
      0xAA2CB767CC387D9E, 0x6F03956F432D2ABF, 0x7088C66A9C7DEC8C, 0x6AFEB7E4E6DB319E,
      0xF2583186306AB6D2, 0xF259CC5A89720367, 0x248D43A6D6B15256, 0xEC313B51824B9731,
      0xAED42DF63BBD2A1F, 0x52512E8487D62297, 0x9A220CA278EA50D9, 0xA9CD7E2361C1981D,
      0x1C25E6831DFC65FD) =
     (0x921D06F3941D5AE1, 0xE85FBA82F79F68AA, 0xCDA4354DF50E5CA1, 0xCE49D4B45FFA98F6,
      0x79C67EE3C46EBFC0, 0xC9FF4503847B3F99, 0x98F1D40202706062, 0xC935D74920CF1079,
      0x2EB1CBA48E95DAAC, 0xC381BF5D01DB54E, 0x720659E693F0BC1E, 0x95C5F85A558B33DF,
      0x3763764DAEAA9259, 0x14BACB470956EC8B, 0xA696F624CFCB2DD8, 0x27902C23AC2313B2,
      0xCDF20790E8E0FE24, 0xE21A7B91049AD121, 0xEC334898D577DEEC, 0xF4908557D7B53DC0,
      0xD49AEF7EE586812C, 0x404B617E9D9FD334, 0x221FB2883CF1E1CB, 0x507CACF11D25E2F1,
      0x75D032B1C37ECF47)"
  by (simp add: round_defs)

lemma keccak_round_10:
  "keccak_round 0x0000000080008009
     (0x921D06F3941D5AE1, 0xE85FBA82F79F68AA, 0xCDA4354DF50E5CA1, 0xCE49D4B45FFA98F6,
      0x79C67EE3C46EBFC0, 0xC9FF4503847B3F99, 0x98F1D40202706062, 0xC935D74920CF1079,
      0x2EB1CBA48E95DAAC, 0xC381BF5D01DB54E, 0x720659E693F0BC1E, 0x95C5F85A558B33DF,
      0x3763764DAEAA9259, 0x14BACB470956EC8B, 0xA696F624CFCB2DD8, 0x27902C23AC2313B2,
      0xCDF20790E8E0FE24, 0xE21A7B91049AD121, 0xEC334898D577DEEC, 0xF4908557D7B53DC0,
      0xD49AEF7EE586812C, 0x404B617E9D9FD334, 0x221FB2883CF1E1CB, 0x507CACF11D25E2F1,
      0x75D032B1C37ECF47) =
     (0x19AE66E3558092C, 0xA755DA5D3BF9C4E4, 0x150837B1CD38AADB, 0x9DB1D01165F773B5,
      0x26209CDF8B8B6C0, 0xD0397707491ECC02, 0xD4E4550B4F3A4E19, 0x1E066A9FA48AA44F,
      0xD00679DAC17309E, 0x9E9EE4501F06A8C3, 0xAA1791D1F35DFD38, 0x7F575C7478F03D8C,
      0xD2A1625EC7433BEB, 0x40B64E81AC2A5E0A, 0xFA4E4329E34D5CD8, 0x56019DD5ACB377E3,
      0x726C5CEDB66416A6, 0x1E6DC776EE130025, 0x37ECFCEC957F3829, 0x39EBBB980BC8CAAB,
      0xCC5B59C14122DD6F, 0xBE7C022FB668805D, 0xD33C72BAE71E46C8, 0xC587FA483BD1B610,
      0xC7888879E83C306D)"
  by (simp add: round_defs)

lemma keccak_round_11:
  "keccak_round 0x000000008000000A
     (0x19AE66E3558092C, 0xA755DA5D3BF9C4E4, 0x150837B1CD38AADB, 0x9DB1D01165F773B5,
      0x26209CDF8B8B6C0, 0xD0397707491ECC02, 0xD4E4550B4F3A4E19, 0x1E066A9FA48AA44F,
      0xD00679DAC17309E, 0x9E9EE4501F06A8C3, 0xAA1791D1F35DFD38, 0x7F575C7478F03D8C,
      0xD2A1625EC7433BEB, 0x40B64E81AC2A5E0A, 0xFA4E4329E34D5CD8, 0x56019DD5ACB377E3,
      0x726C5CEDB66416A6, 0x1E6DC776EE130025, 0x37ECFCEC957F3829, 0x39EBBB980BC8CAAB,
      0xCC5B59C14122DD6F, 0xBE7C022FB668805D, 0xD33C72BAE71E46C8, 0xC587FA483BD1B610,
      0xC7888879E83C306D) =
     (0x30E6EACB4AA3FAE7, 0x95A760CC784DF224, 0xC962A2A47117636B, 0x9F7BD1EFFA23A409,
      0xFCBA289751DC0D8E, 0xF188EF01CA8EC704, 0x6E32123E7E60F09B, 0x9BD8DA206F383989,
      0xEC63104F31A5D562, 0x40F370710BDC38D7, 0xFB05A7A06DD4602D, 0xD802420B261CFD66,
      0x89922D3464886FA, 0xD8416F159D7CA4F8, 0x7D10F1630BB7C8DD, 0xF7B2CD55663E592D,
      0x2EB34A8C12901C0B, 0xB336C55E5530E849, 0x1CF4BA77A3C35469, 0xB9A1EAE2CF1322B7,
      0x60288144AF6BA73E, 0x9A9CAAF9C546F298, 0xD6D373EDFBD3BB7E, 0xB159469EEBA6A8F7,
      0x422B61412C6B878C)"
  by (simp add: round_defs)

lemma keccak_round_12:
  "keccak_round 0x000000008000808B
     (0x30E6EACB4AA3FAE7, 0x95A760CC784DF224, 0xC962A2A47117636B, 0x9F7BD1EFFA23A409,
      0xFCBA289751DC0D8E, 0xF188EF01CA8EC704, 0x6E32123E7E60F09B, 0x9BD8DA206F383989,
      0xEC63104F31A5D562, 0x40F370710BDC38D7, 0xFB05A7A06DD4602D, 0xD802420B261CFD66,
      0x89922D3464886FA, 0xD8416F159D7CA4F8, 0x7D10F1630BB7C8DD, 0xF7B2CD55663E592D,
      0x2EB34A8C12901C0B, 0xB336C55E5530E849, 0x1CF4BA77A3C35469, 0xB9A1EAE2CF1322B7,
      0x60288144AF6BA73E, 0x9A9CAAF9C546F298, 0xD6D373EDFBD3BB7E, 0xB159469EEBA6A8F7,
      0x422B61412C6B878C) =
     (0xAF683DE69F053446, 0x51380EDE75009FE, 0xAE15905472F33929, 0x5FC23A3942AAD282,
      0x6B6B5CEB9A16CCFF, 0x769BBDFD0DF9B7A4, 0x6DB5DAA50F16D50F, 0x3CB9449B86A8D43E,
      0x9232869D66F77BF6, 0x40B420FB4421174E, 0x97A2E6E960F0DEC1, 0xE44B85A1FC16B620,
      0x71974C1673359587, 0x30746ECCD6CC08A2, 0x69E6C8AB6C5FF628, 0x6934F609600C7931,
      0x78DADAAE522AC37B, 0x5F9CD7B4C773BC2D, 0x10B58DE51589D592, 0xB630390835DA3E5E,
      0xF4CC81A42E5D2804, 0xDFD70B9853514FA5, 0x395345B810BECCA7, 0xAA0A8F442CEE5474,
      0x2A917574628D6B9C)"
  by (simp add: round_defs)

lemma keccak_round_13:
  "keccak_round 0x800000000000008B
     (0xAF683DE69F053446, 0x51380EDE75009FE, 0xAE15905472F33929, 0x5FC23A3942AAD282,
      0x6B6B5CEB9A16CCFF, 0x769BBDFD0DF9B7A4, 0x6DB5DAA50F16D50F, 0x3CB9449B86A8D43E,
      0x9232869D66F77BF6, 0x40B420FB4421174E, 0x97A2E6E960F0DEC1, 0xE44B85A1FC16B620,
      0x71974C1673359587, 0x30746ECCD6CC08A2, 0x69E6C8AB6C5FF628, 0x6934F609600C7931,
      0x78DADAAE522AC37B, 0x5F9CD7B4C773BC2D, 0x10B58DE51589D592, 0xB630390835DA3E5E,
      0xF4CC81A42E5D2804, 0xDFD70B9853514FA5, 0x395345B810BECCA7, 0xAA0A8F442CEE5474,
      0x2A917574628D6B9C) =
     (0xA73DDC3F52775607, 0x9AF2635AED000920, 0xB19F52D0571AA73F, 0xD1C1A20AA7E88E0F,
      0xF942B7305960739E, 0xEA877AA7FEB12C36, 0x20F476C0F632241B, 0xF7C095C9FCC75039,
      0x17EC76B31FFB39E0, 0x13C0990E93452C90, 0x9EA50A11F09748B2, 0x1AF9A9C79BDA9432,
      0xAEACA3B07F10D72A, 0x714B76A712944AFC, 0xD26D71167A4D6215, 0xEB4F962716D011C4,
      0xBD681E45F534F949, 0x6B879EA0243E0E58, 0x9C3432590D697955, 0xD982E76CF693BBA4,
      0x82C28F86380C4D7F, 0xEDCD9ABEFBDC9451, 0x9FA70EF1E69460EF, 0x493A6B82DC22C09F,
      0x334D4D8DFADB5E18)"
  by (simp add: round_defs)

lemma keccak_round_14:
  "keccak_round 0x8000000000008089
     (0xA73DDC3F52775607, 0x9AF2635AED000920, 0xB19F52D0571AA73F, 0xD1C1A20AA7E88E0F,
      0xF942B7305960739E, 0xEA877AA7FEB12C36, 0x20F476C0F632241B, 0xF7C095C9FCC75039,
      0x17EC76B31FFB39E0, 0x13C0990E93452C90, 0x9EA50A11F09748B2, 0x1AF9A9C79BDA9432,
      0xAEACA3B07F10D72A, 0x714B76A712944AFC, 0xD26D71167A4D6215, 0xEB4F962716D011C4,
      0xBD681E45F534F949, 0x6B879EA0243E0E58, 0x9C3432590D697955, 0xD982E76CF693BBA4,
      0x82C28F86380C4D7F, 0xEDCD9ABEFBDC9451, 0x9FA70EF1E69460EF, 0x493A6B82DC22C09F,
      0x334D4D8DFADB5E18) =
     (0x55AD5C7ADB12C63A, 0xBF797B1CD2A19E46, 0x55565CD21AECE934, 0x26E529485276B246,
      0x3F561B07710D8104, 0x7C90C39D32A4BAF3, 0x9F05A7A6BC27C9A, 0x75A96C9A9611C334,
      0xE9D080CFAC478D38, 0x14458019F2E1C7A9, 0x3BA73B0F6697641F, 0x95D0216153E36ABC,
      0xB8F165FEE35F73C3, 0xDCF2E669452238CA, 0xEC5AE0D4E6AEC3F8, 0x3CED834BD3F06977,
      0xE107CBEC895EEFB5, 0x70E5FF32A59EF25E, 0xCCA39DA3FBDD686, 0x8AF1E050E9BD863F,
      0x64ED67BD1BE0BFB7, 0xB8553E25CA3DE8EE, 0x54DC46EA9028D9E2, 0xE2C6A7D6BFA565EF,
      0xA1F1819A7265DD3D)"
  by (simp add: round_defs)

lemma keccak_round_15:
  "keccak_round 0x8000000000008003
     (0x55AD5C7ADB12C63A, 0xBF797B1CD2A19E46, 0x55565CD21AECE934, 0x26E529485276B246,
      0x3F561B07710D8104, 0x7C90C39D32A4BAF3, 0x9F05A7A6BC27C9A, 0x75A96C9A9611C334,
      0xE9D080CFAC478D38, 0x14458019F2E1C7A9, 0x3BA73B0F6697641F, 0x95D0216153E36ABC,
      0xB8F165FEE35F73C3, 0xDCF2E669452238CA, 0xEC5AE0D4E6AEC3F8, 0x3CED834BD3F06977,
      0xE107CBEC895EEFB5, 0x70E5FF32A59EF25E, 0xCCA39DA3FBDD686, 0x8AF1E050E9BD863F,
      0x64ED67BD1BE0BFB7, 0xB8553E25CA3DE8EE, 0x54DC46EA9028D9E2, 0xE2C6A7D6BFA565EF,
      0xA1F1819A7265DD3D) =
     (0x857BA5AC57DBA678, 0x977631B05E6B8595, 0xDCAA398B1CAD93E6, 0x7F519FA708C109E4,
      0x41523D37553BBC7, 0x7CDF73C96E742F42, 0xFC55F2F6F5A705A5, 0x1DCE54965FCF2155,
      0xDDFEEFBF2E61C75A, 0x5A880A0A98784741, 0x1B99C4504741EB1F, 0xF7F2C02B9C72DBF,
      0x5DC6574D1F219E70, 0xDA88B54D48EC7F3, 0x5CC4FAF7C651F6EE, 0xCE432FCE0BBD1CC2,
      0xBF8F9C124E8D0829, 0xBDE4CCC95811D29F, 0x14BD313508CA32E8, 0xE12E35FFD5AA4A2,
      0x360386F4339E07E5, 0xEC4492A574209BF5, 0xC3F59756D2CA852B, 0x4E62AC6B77A1AF1C,
      0xEAC6A394A492B81E)"
  by (simp add: round_defs)

lemma keccak_round_16:
  "keccak_round 0x8000000000008002
     (0x857BA5AC57DBA678, 0x977631B05E6B8595, 0xDCAA398B1CAD93E6, 0x7F519FA708C109E4,
      0x41523D37553BBC7, 0x7CDF73C96E742F42, 0xFC55F2F6F5A705A5, 0x1DCE54965FCF2155,
      0xDDFEEFBF2E61C75A, 0x5A880A0A98784741, 0x1B99C4504741EB1F, 0xF7F2C02B9C72DBF,
      0x5DC6574D1F219E70, 0xDA88B54D48EC7F3, 0x5CC4FAF7C651F6EE, 0xCE432FCE0BBD1CC2,
      0xBF8F9C124E8D0829, 0xBDE4CCC95811D29F, 0x14BD313508CA32E8, 0xE12E35FFD5AA4A2,
      0x360386F4339E07E5, 0xEC4492A574209BF5, 0xC3F59756D2CA852B, 0x4E62AC6B77A1AF1C,
      0xEAC6A394A492B81E) =
     (0xC893F1A47775D400, 0x2AA1E0F46CA54363, 0x6CAA8D1C7AFC5139, 0xE61EB26086C266AC,
      0xCCC22B03FF2AEB1C, 0x3227F57A853B9CD6, 0xA049867287C9EE33, 0xF2DEF1DB25F0A92D,
      0x10F90CB13D935934, 0xE3B25D5006DCD060, 0x115A3761696C147A, 0x6A6F42C6FD0F8335,
      0xE9C2E5226858E19A, 0xB1F1C1BDCCE21FBF, 0x31D8019BA6DF7787, 0xFAFE6EAB7E20F2DF,
      0xB829E71957848C04, 0x933203A8E6890659, 0xC903911FF2F610E7, 0xC261DBEE6F9651D9,
      0x8523459D69511012, 0x42DC6B55DD044CD8, 0xE5AA19ECEF53DC3, 0x86ED258EC27FBB41,
      0x8F278296EB7A9EA8)"
  by (simp add: round_defs)

lemma keccak_round_17:
  "keccak_round 0x8000000000000080
     (0xC893F1A47775D400, 0x2AA1E0F46CA54363, 0x6CAA8D1C7AFC5139, 0xE61EB26086C266AC,
      0xCCC22B03FF2AEB1C, 0x3227F57A853B9CD6, 0xA049867287C9EE33, 0xF2DEF1DB25F0A92D,
      0x10F90CB13D935934, 0xE3B25D5006DCD060, 0x115A3761696C147A, 0x6A6F42C6FD0F8335,
      0xE9C2E5226858E19A, 0xB1F1C1BDCCE21FBF, 0x31D8019BA6DF7787, 0xFAFE6EAB7E20F2DF,
      0xB829E71957848C04, 0x933203A8E6890659, 0xC903911FF2F610E7, 0xC261DBEE6F9651D9,
      0x8523459D69511012, 0x42DC6B55DD044CD8, 0xE5AA19ECEF53DC3, 0x86ED258EC27FBB41,
      0x8F278296EB7A9EA8) =
     (0x7F188E0F9535AAFA, 0x246DFEB8DEB5D374, 0x7AD52A0B4CDC8816, 0x542BC8A2B9F5802E,
      0x5E591D29B0FAFAEA, 0xA2EC5E7EC3E3895C, 0x37A40522F228BA6A, 0xB2B86E8D51FA741C,
      0xCC8D9B06113759F0, 0x59BAB3CD2B804A0D, 0xDED51F879B24B016, 0xB6528B4DD9923D1E,
      0x1E1AAF384FF0E74E, 0xED2C12828FE2E9B4, 0xEDF0AD057B3B8D08, 0xED263DFAD647A606,
      0x6D9478E69CD8B566, 0xC177207C31EF6429, 0xB22B6AAF3CF16E59, 0x5353ED463CE2C5AE,
      0x388A6EB2382F88E0, 0x5E36F08649CA9D3E, 0xA9447248B76360BC, 0xD5DA2329E8202518,
      0xF6880ECBDDECA5E)"
  by (simp add: round_defs)

lemma keccak_round_18:
  "keccak_round 0x000000000000800A
     (0x7F188E0F9535AAFA, 0x246DFEB8DEB5D374, 0x7AD52A0B4CDC8816, 0x542BC8A2B9F5802E,
      0x5E591D29B0FAFAEA, 0xA2EC5E7EC3E3895C, 0x37A40522F228BA6A, 0xB2B86E8D51FA741C,
      0xCC8D9B06113759F0, 0x59BAB3CD2B804A0D, 0xDED51F879B24B016, 0xB6528B4DD9923D1E,
      0x1E1AAF384FF0E74E, 0xED2C12828FE2E9B4, 0xEDF0AD057B3B8D08, 0xED263DFAD647A606,
      0x6D9478E69CD8B566, 0xC177207C31EF6429, 0xB22B6AAF3CF16E59, 0x5353ED463CE2C5AE,
      0x388A6EB2382F88E0, 0x5E36F08649CA9D3E, 0xA9447248B76360BC, 0xD5DA2329E8202518,
      0xF6880ECBDDECA5E) =
     (0xFD21150E1464801E, 0xE78CB3DA1A609431, 0x73620522AA245C42, 0x37665B0AB2EC47B5,
      0x2EC4EA96B87EBB82, 0xEE915EAD4B626A99, 0xE39B8CA6B85E4F94, 0x257506101F09C8C2,
      0x6E76747A1289C077, 0x4279D3377E8F9876, 0x3CC023269F36D36C, 0x1F2DC46D83FF8C80,
      0xF932E005BD44F3EC, 0x2B5E988E84C008EC, 0xC77DB96009738FC7, 0xF9B27793178A6126,
      0xE005D238E7C0432, 0xCB911D0CF213AC73, 0x6CE54A913512F0FD, 0xF443C666BD8A94C6,
      0xC2C6B3FF2284E4E0, 0xF165C39BE025899, 0x2FC66B3848DE2CE6, 0x22DFD0A69B0D3F6E,
      0xDDC130B70693743E)"
  by (simp add: round_defs)

lemma keccak_round_19:
  "keccak_round 0x800000008000000A
     (0xFD21150E1464801E, 0xE78CB3DA1A609431, 0x73620522AA245C42, 0x37665B0AB2EC47B5,
      0x2EC4EA96B87EBB82, 0xEE915EAD4B626A99, 0xE39B8CA6B85E4F94, 0x257506101F09C8C2,
      0x6E76747A1289C077, 0x4279D3377E8F9876, 0x3CC023269F36D36C, 0x1F2DC46D83FF8C80,
      0xF932E005BD44F3EC, 0x2B5E988E84C008EC, 0xC77DB96009738FC7, 0xF9B27793178A6126,
      0xE005D238E7C0432, 0xCB911D0CF213AC73, 0x6CE54A913512F0FD, 0xF443C666BD8A94C6,
      0xC2C6B3FF2284E4E0, 0xF165C39BE025899, 0x2FC66B3848DE2CE6, 0x22DFD0A69B0D3F6E,
      0xDDC130B70693743E) =
     (0xA332D7C0D189B68F, 0x97C1A617E0C480A0, 0x7AEACD5BB31EFDC5, 0x3C5D561992E5EBE6,
      0x81EF7982B312726D, 0x9A9BEA99F10107B6, 0x5AF154123074C24B, 0x57DD4146461E51DE,
      0xF8EA13158D70A1E1, 0x29E05D560196D48A, 0xD94C6E8010669F9E, 0xC869BA16B9B4ADB1,
      0x9AFB25EFB49883D7, 0x36A856B44D8E2D68, 0xE3C455801C4DD375, 0x57CDC4110A85F8B2,
      0x63367C598AF4A39, 0x312F0CCFA77D7536, 0xB8CABF7E3B56941E, 0x885F394D05E89D40,
      0x5622B947ABF9C58D, 0x8B4A290FF2D8F5F, 0xFBD199292872382E, 0x5E5562BD51C07A25,
      0x3F4F2B5CBDD0A548)"
  by (simp add: round_defs)

lemma keccak_round_20:
  "keccak_round 0x8000000080008081
     (0xA332D7C0D189B68F, 0x97C1A617E0C480A0, 0x7AEACD5BB31EFDC5, 0x3C5D561992E5EBE6,
      0x81EF7982B312726D, 0x9A9BEA99F10107B6, 0x5AF154123074C24B, 0x57DD4146461E51DE,
      0xF8EA13158D70A1E1, 0x29E05D560196D48A, 0xD94C6E8010669F9E, 0xC869BA16B9B4ADB1,
      0x9AFB25EFB49883D7, 0x36A856B44D8E2D68, 0xE3C455801C4DD375, 0x57CDC4110A85F8B2,
      0x63367C598AF4A39, 0x312F0CCFA77D7536, 0xB8CABF7E3B56941E, 0x885F394D05E89D40,
      0x5622B947ABF9C58D, 0x8B4A290FF2D8F5F, 0xFBD199292872382E, 0x5E5562BD51C07A25,
      0x3F4F2B5CBDD0A548) =
     (0xE4CCA7C95BF493FC, 0x1146B4356E6E424C, 0x6FDE345361AA8C6E, 0xBC4B826C27D30CC1,
      0x6F0D398E62C03AF6, 0x674919282B8D9A69, 0x81A0A2548CDFB74E, 0x99706A58D40DB3F4,
      0x5799238BF72C684A, 0xDB0173C4AE8F8513, 0xC162342CBD4A461, 0xCA36359820C9769B,
      0x554D77A823E88959, 0xD2EF487EC9732D7E, 0x42BA9C9F51B4A78F, 0x2577DC70629DDD17,
      0xAFCCC96719C83DBF, 0xDFF2D35C20CCB34F, 0x3FBAE21066D843AC, 0x4E5AF09F3EF2958B,
      0xA40DFF30DB608157, 0x1FE161592AF82AC, 0xFC17D898206737BF, 0xE1C68659665B2042,
      0x4F59D09FCAD26714)"
  by (simp add: round_defs)

lemma keccak_round_21:
  "keccak_round 0x8000000000008080
     (0xE4CCA7C95BF493FC, 0x1146B4356E6E424C, 0x6FDE345361AA8C6E, 0xBC4B826C27D30CC1,
      0x6F0D398E62C03AF6, 0x674919282B8D9A69, 0x81A0A2548CDFB74E, 0x99706A58D40DB3F4,
      0x5799238BF72C684A, 0xDB0173C4AE8F8513, 0xC162342CBD4A461, 0xCA36359820C9769B,
      0x554D77A823E88959, 0xD2EF487EC9732D7E, 0x42BA9C9F51B4A78F, 0x2577DC70629DDD17,
      0xAFCCC96719C83DBF, 0xDFF2D35C20CCB34F, 0x3FBAE21066D843AC, 0x4E5AF09F3EF2958B,
      0xA40DFF30DB608157, 0x1FE161592AF82AC, 0xFC17D898206737BF, 0xE1C68659665B2042,
      0x4F59D09FCAD26714) =
     (0x77BA8B038011905F, 0xC28988F0DF8D8A14, 0xF0D27F24595FFD5, 0x8938F9740E8A1AE9,
      0xC823252B7E1F6752, 0x94384AB89CBBC0DA, 0x3927A230E0625BFA, 0xDBF327DBC88D3528,
      0x132D9C24B27B42D0, 0x71CDF7F2296CD2C0, 0x1C5E9D268FA4AA39, 0x4C63D4C9D3322AD8,
      0x64D443814FF9044C, 0xF4029501DD7DFEBC, 0x3EDC2DD0ACCB9B7, 0x8AC537B468A0FF4E,
      0x9681B5553BE13E75, 0x4FBAD234578F2B15, 0xDB4AF972C57584C1, 0x9E8E234A07320876,
      0xD14CF0D6128CB914, 0x3994FA5428D81CD7, 0x1556EDCE46E5C6A, 0x319DAA6E0D85C732,
      0x347FBAC6D58D5B3F)"
  by (simp add: round_defs)

lemma keccak_round_22:
  "keccak_round 0x0000000080000001
     (0x77BA8B038011905F, 0xC28988F0DF8D8A14, 0xF0D27F24595FFD5, 0x8938F9740E8A1AE9,
      0xC823252B7E1F6752, 0x94384AB89CBBC0DA, 0x3927A230E0625BFA, 0xDBF327DBC88D3528,
      0x132D9C24B27B42D0, 0x71CDF7F2296CD2C0, 0x1C5E9D268FA4AA39, 0x4C63D4C9D3322AD8,
      0x64D443814FF9044C, 0xF4029501DD7DFEBC, 0x3EDC2DD0ACCB9B7, 0x8AC537B468A0FF4E,
      0x9681B5553BE13E75, 0x4FBAD234578F2B15, 0xDB4AF972C57584C1, 0x9E8E234A07320876,
      0xD14CF0D6128CB914, 0x3994FA5428D81CD7, 0x1556EDCE46E5C6A, 0x319DAA6E0D85C732,
      0x347FBAC6D58D5B3F) =
     (0x7648C93A11587D19, 0x9D0C521F8E34F6F4, 0x2B318AA16CA1A512, 0xF0150EA2BAF8CD58,
      0x29D3DA83DC5BCA1, 0x9EF23174ED21A0DB, 0x22056D54E7BE9E76, 0xC8EBB7FFFA401A0B,
      0x4A39F93DEE44C608, 0x42049729EBB433C6, 0x37EF32FDB90ACA5F, 0xEE2712156F891D72,
      0xA96CFAF2001544DE, 0xF735AA76A388C791, 0xE52D89151142D41C, 0xF8ED25DF4826C9CC,
      0xC733EDE24F9A313F, 0xD2EADB6664D60CD6, 0x5AD2FFD05C366F7D, 0x23EC756628FA97D2,
      0x1F05B45FBB233933, 0xE34217A8367EF5A2, 0xFB9AEECF416C3339, 0xD4B315477DB86B3A,
      0x61487E0C8F23CA31)"
  by (simp add: round_defs)

lemma keccak_round_23:
  "keccak_round 0x8000000080008008
     (0x7648C93A11587D19, 0x9D0C521F8E34F6F4, 0x2B318AA16CA1A512, 0xF0150EA2BAF8CD58,
      0x29D3DA83DC5BCA1, 0x9EF23174ED21A0DB, 0x22056D54E7BE9E76, 0xC8EBB7FFFA401A0B,
      0x4A39F93DEE44C608, 0x42049729EBB433C6, 0x37EF32FDB90ACA5F, 0xEE2712156F891D72,
      0xA96CFAF2001544DE, 0xF735AA76A388C791, 0xE52D89151142D41C, 0xF8ED25DF4826C9CC,
      0xC733EDE24F9A313F, 0xD2EADB6664D60CD6, 0x5AD2FFD05C366F7D, 0x23EC756628FA97D2,
      0x1F05B45FBB233933, 0xE34217A8367EF5A2, 0xFB9AEECF416C3339, 0xD4B315477DB86B3A,
      0x61487E0C8F23CA31) =
     (0xDBC6FDE80C6585D3, 0xDB1448D391A0E37E, 0x21E5FA9F2118CEC4, 0xE507D73440FFEF82,
      0x9BD54D4E621E36F6, 0x2C86810C34EF4A55, 0x4AC51833124D036F, 0xD203A9BDA159F0E8,
      0xB74187006FDB6B7A, 0x620794D79A7FC243, 0xCAD9FA5BBD8E179D, 0x3117DE08998E8A4E,
      0x1FA2A41440F1EC3B, 0xEA2D35D425AAA195, 0xDB26959975C4C2EA, 0xD28C23B39584F9A5,
      0x10F009B23C96A85, 0x5C8CB26921CD2244, 0xBD435B6317DBC9E7, 0x3391DBE9E5420A0,
      0xB42FCCD0BA0CE10C, 0x8DE1FF6D624C7EAD, 0xFA698D2A8DD46E15, 0x817E517AA0CE92B2,
      0x791A816EDA146443)"
  by (simp add: round_defs)

lemmas rounds = keccak_round_0 keccak_round_1 keccak_round_2 keccak_round_3 keccak_round_4
  keccak_round_5 keccak_round_6 keccak_round_7 keccak_round_8 keccak_round_9
  keccak_round_10 keccak_round_11 keccak_round_12 keccak_round_13 keccak_round_14
  keccak_round_15 keccak_round_16 keccak_round_17 keccak_round_18 keccak_round_19
  keccak_round_20 keccak_round_21 keccak_round_22 keccak_round_23

lemma keccak_f_address:
  "keccak_f (0x3530366265616135, 0x3963343965336633, 0x3333663930613962, 0x3765353334393636,
             0x6465616562316665, 0x1, 0, 0, 0, 0, 0, 0, 0, 0, 0, 0, 0x8000000000000000, 0, 0, 0,
             0, 0, 0, 0, 0) =
     (0xDBC6FDE80C6585D3, 0xDB1448D391A0E37E, 0x21E5FA9F2118CEC4, 0xE507D73440FFEF82,
      0x9BD54D4E621E36F6, 0x2C86810C34EF4A55, 0x4AC51833124D036F, 0xD203A9BDA159F0E8,
      0xB74187006FDB6B7A, 0x620794D79A7FC243, 0xCAD9FA5BBD8E179D, 0x3117DE08998E8A4E,
      0x1FA2A41440F1EC3B, 0xEA2D35D425AAA195, 0xDB26959975C4C2EA, 0xD28C23B39584F9A5,
      0x10F009B23C96A85, 0x5C8CB26921CD2244, 0xBD435B6317DBC9E7, 0x3391DBE9E5420A0,
      0xB42FCCD0BA0CE10C, 0x8DE1FF6D624C7EAD, 0xFA698D2A8DD46E15, 0x817E517AA0CE92B2,
      0x791A816EDA146443)"
  by (simp only: keccak_f_def RC_def foldl.simps rounds)

lemma bytes_address:
  "bytes_of ''5aaeb6053f3e94c9b9a09f33669435e7ef1beaed'' =
     [0x35, 0x61, 0x61, 0x65, 0x62, 0x36, 0x30, 0x35, 0x33, 0x66, 0x33, 0x65, 0x39, 0x34, 0x63,
      0x39, 0x62, 0x39, 0x61, 0x30, 0x39, 0x66, 0x33, 0x33, 0x36, 0x36, 0x39, 0x34, 0x33, 0x35,
      0x65, 0x37, 0x65, 0x66, 0x31, 0x62, 0x65, 0x61, 0x65, 0x64]"
  by (simp add: bytes_of_def)

lemma replicate_94:
  "replicate 94 (0 :: byte) =
     [0, 0, 0, 0, 0, 0, 0, 0, 0, 0, 0, 0, 0, 0, 0, 0, 0, 0, 0, 0, 0, 0, 0, 0, 0, 0, 0, 0, 0, 0,
      0, 0, 0, 0, 0, 0, 0, 0, 0, 0, 0, 0, 0, 0, 0, 0, 0, 0, 0, 0, 0, 0, 0, 0, 0, 0, 0, 0, 0, 0,
      0, 0, 0, 0, 0, 0, 0, 0, 0, 0, 0, 0, 0, 0, 0, 0, 0, 0, 0, 0, 0, 0, 0, 0, 0, 0, 0, 0, 0, 0,
      0, 0, 0, 0]"
  by (simp add: numeral_eq_Suc)

lemma pad_address:
  "pad10star1 [0x35, 0x61, 0x61, 0x65, 0x62, 0x36, 0x30, 0x35, 0x33, 0x66, 0x33, 0x65, 0x39,
               0x34, 0x63, 0x39, 0x62, 0x39, 0x61, 0x30, 0x39, 0x66, 0x33, 0x33, 0x36, 0x36,
               0x39, 0x34, 0x33, 0x35, 0x65, 0x37, 0x65, 0x66, 0x31, 0x62, 0x65, 0x61, 0x65,
               0x64] =
     [0x35, 0x61, 0x61, 0x65, 0x62, 0x36, 0x30, 0x35, 0x33, 0x66, 0x33, 0x65, 0x39, 0x34, 0x63,
      0x39, 0x62, 0x39, 0x61, 0x30, 0x39, 0x66, 0x33, 0x33, 0x36, 0x36, 0x39, 0x34, 0x33, 0x35,
      0x65, 0x37, 0x65, 0x66, 0x31, 0x62, 0x65, 0x61, 0x65, 0x64, 0x01, 0x00, 0x00, 0x00, 0x00,
      0x00, 0x00, 0x00, 0x00, 0x00, 0x00, 0x00, 0x00, 0x00, 0x00, 0x00, 0x00, 0x00, 0x00, 0x00,
      0x00, 0x00, 0x00, 0x00, 0x00, 0x00, 0x00, 0x00, 0x00, 0x00, 0x00, 0x00, 0x00, 0x00, 0x00,
      0x00, 0x00, 0x00, 0x00, 0x00, 0x00, 0x00, 0x00, 0x00, 0x00, 0x00, 0x00, 0x00, 0x00, 0x00,
      0x00, 0x00, 0x00, 0x00, 0x00, 0x00, 0x00, 0x00, 0x00, 0x00, 0x00, 0x00, 0x00, 0x00, 0x00,
      0x00, 0x00, 0x00, 0x00, 0x00, 0x00, 0x00, 0x00, 0x00, 0x00, 0x00, 0x00, 0x00, 0x00, 0x00,
      0x00, 0x00, 0x00, 0x00, 0x00, 0x00, 0x00, 0x00, 0x00, 0x00, 0x00, 0x00, 0x00, 0x00, 0x00,
      0x80]"
  by (simp add: pad10star1_def replicate_94)

lemma blocks_address:
  "blocks [0x35, 0x61, 0x61, 0x65, 0x62, 0x36, 0x30, 0x35, 0x33, 0x66, 0x33, 0x65, 0x39, 0x34,
           0x63, 0x39, 0x62, 0x39, 0x61, 0x30, 0x39, 0x66, 0x33, 0x33, 0x36, 0x36, 0x39, 0x34,
           0x33, 0x35, 0x65, 0x37, 0x65, 0x66, 0x31, 0x62, 0x65, 0x61, 0x65, 0x64, 0x01, 0x00,
           0x00, 0x00, 0x00, 0x00, 0x00, 0x00, 0x00, 0x00, 0x00, 0x00, 0x00, 0x00, 0x00, 0x00,
           0x00, 0x00, 0x00, 0x00, 0x00, 0x00, 0x00, 0x00, 0x00, 0x00, 0x00, 0x00, 0x00, 0x00,
           0x00, 0x00, 0x00, 0x00, 0x00, 0x00, 0x00, 0x00, 0x00, 0x00, 0x00, 0x00, 0x00, 0x00,
           0x00, 0x00, 0x00, 0x00, 0x00, 0x00, 0x00, 0x00, 0x00, 0x00, 0x00, 0x00, 0x00, 0x00,
           0x00, 0x00, 0x00, 0x00, 0x00, 0x00, 0x00, 0x00, 0x00, 0x00, 0x00, 0x00, 0x00, 0x00,
           0x00, 0x00, 0x00, 0x00, 0x00, 0x00, 0x00, 0x00, 0x00, 0x00, 0x00, 0x00, 0x00, 0x00,
           0x00, 0x00, 0x00, 0x00, 0x00, 0x00, 0x00, 0x00, 0x00, 0x80] =
     [[0x35, 0x61, 0x61, 0x65, 0x62, 0x36, 0x30, 0x35, 0x33, 0x66, 0x33, 0x65, 0x39, 0x34, 0x63,
       0x39, 0x62, 0x39, 0x61, 0x30, 0x39, 0x66, 0x33, 0x33, 0x36, 0x36, 0x39, 0x34, 0x33, 0x35,
       0x65, 0x37, 0x65, 0x66, 0x31, 0x62, 0x65, 0x61, 0x65, 0x64, 0x01, 0x00, 0x00, 0x00, 0x00,
       0x00, 0x00, 0x00, 0x00, 0x00, 0x00, 0x00, 0x00, 0x00, 0x00, 0x00, 0x00, 0x00, 0x00, 0x00,
       0x00, 0x00, 0x00, 0x00, 0x00, 0x00, 0x00, 0x00, 0x00, 0x00, 0x00, 0x00, 0x00, 0x00, 0x00,
       0x00, 0x00, 0x00, 0x00, 0x00, 0x00, 0x00, 0x00, 0x00, 0x00, 0x00, 0x00, 0x00, 0x00, 0x00,
       0x00, 0x00, 0x00, 0x00, 0x00, 0x00, 0x00, 0x00, 0x00, 0x00, 0x00, 0x00, 0x00, 0x00, 0x00,
       0x00, 0x00, 0x00, 0x00, 0x00, 0x00, 0x00, 0x00, 0x00, 0x00, 0x00, 0x00, 0x00, 0x00, 0x00,
       0x00, 0x00, 0x00, 0x00, 0x00, 0x00, 0x00, 0x00, 0x00, 0x00, 0x00, 0x00, 0x00, 0x00, 0x00,
       0x80]]"
  by (simp add: blocks_def)

lemma block_lanes_address:
  "block_lanes [0x35, 0x61, 0x61, 0x65, 0x62, 0x36, 0x30, 0x35, 0x33, 0x66, 0x33, 0x65, 0x39,
                0x34, 0x63, 0x39, 0x62, 0x39, 0x61, 0x30, 0x39, 0x66, 0x33, 0x33, 0x36, 0x36,
                0x39, 0x34, 0x33, 0x35, 0x65, 0x37, 0x65, 0x66, 0x31, 0x62, 0x65, 0x61, 0x65,
                0x64, 0x01, 0x00, 0x00, 0x00, 0x00, 0x00, 0x00, 0x00, 0x00, 0x00, 0x00, 0x00,
                0x00, 0x00, 0x00, 0x00, 0x00, 0x00, 0x00, 0x00, 0x00, 0x00, 0x00, 0x00, 0x00,
                0x00, 0x00, 0x00, 0x00, 0x00, 0x00, 0x00, 0x00, 0x00, 0x00, 0x00, 0x00, 0x00,
                0x00, 0x00, 0x00, 0x00, 0x00, 0x00, 0x00, 0x00, 0x00, 0x00, 0x00, 0x00, 0x00,
                0x00, 0x00, 0x00, 0x00, 0x00, 0x00, 0x00, 0x00, 0x00, 0x00, 0x00, 0x00, 0x00,
                0x00, 0x00, 0x00, 0x00, 0x00, 0x00, 0x00, 0x00, 0x00, 0x00, 0x00, 0x00, 0x00,
                0x00, 0x00, 0x00, 0x00, 0x00, 0x00, 0x00, 0x00, 0x00, 0x00, 0x00, 0x00, 0x00,
                0x00, 0x00, 0x00, 0x00, 0x00, 0x80] =
     [0x3530366265616135, 0x3963343965336633, 0x3333663930613962, 0x3765353334393636,
      0x6465616562316665, 0x1, 0x0, 0x0, 0x0, 0x0, 0x0, 0x0, 0x0, 0x0, 0x0, 0x0,
      0x8000000000000000]"
  by (simp add: block_lanes_def upt_rec)

lemma xor_block_address:
  "xor_block zero_state [0x3530366265616135, 0x3963343965336633, 0x3333663930613962,
                         0x3765353334393636, 0x6465616562316665, 0x1, 0x0, 0x0, 0x0, 0x0, 0x0,
                         0x0, 0x0, 0x0, 0x0, 0x0, 0x8000000000000000] =
     (0x3530366265616135, 0x3963343965336633, 0x3333663930613962, 0x3765353334393636,
      0x6465616562316665, 0x1, 0, 0, 0, 0, 0, 0, 0, 0, 0, 0, 0x8000000000000000, 0, 0, 0, 0, 0,
      0, 0, 0)"
  by (simp add: xor_block_def zero_state_def)

lemma squeeze_address:
  "squeeze (0xDBC6FDE80C6585D3, 0xDB1448D391A0E37E, 0x21E5FA9F2118CEC4, 0xE507D73440FFEF82,
            0x9BD54D4E621E36F6, 0x2C86810C34EF4A55, 0x4AC51833124D036F, 0xD203A9BDA159F0E8,
            0xB74187006FDB6B7A, 0x620794D79A7FC243, 0xCAD9FA5BBD8E179D, 0x3117DE08998E8A4E,
            0x1FA2A41440F1EC3B, 0xEA2D35D425AAA195, 0xDB26959975C4C2EA, 0xD28C23B39584F9A5,
            0x10F009B23C96A85, 0x5C8CB26921CD2244, 0xBD435B6317DBC9E7, 0x3391DBE9E5420A0,
            0xB42FCCD0BA0CE10C, 0x8DE1FF6D624C7EAD, 0xFA698D2A8DD46E15, 0x817E517AA0CE92B2,
            0x791A816EDA146443) =
     [0xD3, 0x85, 0x65, 0x0C, 0xE8, 0xFD, 0xC6, 0xDB, 0x7E, 0xE3, 0xA0, 0x91, 0xD3, 0x48, 0x14,
      0xDB, 0xC4, 0xCE, 0x18, 0x21, 0x9F, 0xFA, 0xE5, 0x21, 0x82, 0xEF, 0xFF, 0x40, 0x34, 0xD7,
      0x07, 0xE5]"
  by (simp add: squeeze_def lane_bytes_def upt_rec)

lemma keccak256_address:
  "keccak256 (bytes_of ''5aaeb6053f3e94c9b9a09f33669435e7ef1beaed'') =
     [0xD3, 0x85, 0x65, 0x0C, 0xE8, 0xFD, 0xC6, 0xDB, 0x7E, 0xE3, 0xA0, 0x91, 0xD3, 0x48, 0x14,
      0xDB, 0xC4, 0xCE, 0x18, 0x21, 0x9F, 0xFA, 0xE5, 0x21, 0x82, 0xEF, 0xFF, 0x40, 0x34, 0xD7,
      0x07, 0xE5]"
  by (simp only: keccak256_def bytes_address pad_address blocks_address foldl.simps
      absorb_def block_lanes_address xor_block_address keccak_f_address squeeze_address)

lemma nibbles_address:
  "nibbles [0xD3, 0x85, 0x65, 0x0C, 0xE8, 0xFD, 0xC6, 0xDB, 0x7E, 0xE3, 0xA0, 0x91, 0xD3, 0x48,
            0x14, 0xDB, 0xC4, 0xCE, 0x18, 0x21, 0x9F, 0xFA, 0xE5, 0x21, 0x82, 0xEF, 0xFF, 0x40,
            0x34, 0xD7, 0x07, 0xE5] =
     [13, 3, 8, 5, 6, 5, 0, 12, 14, 8, 15, 13, 12, 6, 13, 11, 7, 14, 14, 3, 10, 0, 9, 1, 13, 3,
      4, 8, 1, 4, 13, 11, 12, 4, 12, 14, 1, 8, 2, 1, 9, 15, 15, 10, 14, 5, 2, 1, 8, 2, 14, 15,
      15, 15, 4, 0, 3, 4, 13, 7, 0, 7, 14, 5]"
  by (simp add: nibbles_def)

lemma checksum_nibbles:
  "nibbles (keccak256 (bytes_of ''5aaeb6053f3e94c9b9a09f33669435e7ef1beaed'')) =
     [13, 3, 8, 5, 6, 5, 0, 12, 14, 8, 15, 13, 12, 6, 13, 11, 7, 14, 14, 3, 10, 0, 9, 1, 13, 3,
      4, 8, 1, 4, 13, 11, 12, 4, 12, 14, 1, 8, 2, 1, 9, 15, 15, 10, 14, 5, 2, 1, 8, 2, 14, 15,
      15, 15, 4, 0, 3, 4, 13, 7, 0, 7, 14, 5]"
  by (simp only: keccak256_address nibbles_address)

lemma lower_addresses:
  "toLowerCase ''5aAeb6053F3E94C9b9A09f33669435E7Ef1BeAed'' = ''5aaeb6053f3e94c9b9a09f33669435e7ef1beaed''"
  "toLowerCase ''5aAeb6053f3e94c9b9a09f33669435E7ef1BeAed'' = ''5aaeb6053f3e94c9b9a09f33669435e7ef1beaed''"
  "toLowerCase ''5aaeb6053f3e94c9b9a09f33669435e7ef1beaed'' = ''5aaeb6053f3e94c9b9a09f33669435e7ef1beaed''"
  by (simp_all add: toLowerCase_def lower_char_def char_of_def bit_0)

lemma toChecksum_addresses:
  "toChecksum ''5aAeb6053F3E94C9b9A09f33669435E7Ef1BeAed'' = ''5aAeb6053F3E94C9b9A09f33669435E7Ef1BeAed''"
  "toChecksum ''5aAeb6053f3e94c9b9a09f33669435E7ef1BeAed'' = ''5aAeb6053F3E94C9b9A09f33669435E7Ef1BeAed''"
  "toChecksum ''5aaeb6053f3e94c9b9a09f33669435e7ef1beaed'' = ''5aAeb6053F3E94C9b9A09f33669435E7Ef1BeAed''"
  by (simp_all add: toChecksum_def lower_addresses checksum_nibbles upper_hex_def char_of_def bit_0)

lemma checksum_addresses:
  "isValidChecksumAddress (JStr ''0x5aAeb6053F3E94C9b9A09f33669435E7Ef1BeAed'')"
  "\<not> isValidChecksumAddress (JStr ''0x5aAeb6053f3e94c9b9a09f33669435E7ef1BeAed'')"
  "\<not> isValidChecksumAddress (JStr ''0x5aaeb6053f3e94c9b9a09f33669435e7ef1beaed'')"
  by (simp_all add: isValidChecksumAddress_def stripHexPrefix_def toChecksum_addresses)


text \<open>
  C2, as stated, fails on its address: the letters at the positions 9, 11, 14, 18 and 32 of its 40
  digits (counted from 0) are lower case where the nibble of the digest is at least 8,
          so the string passes
  the assertions on the type, the length and the format, and the assertion on the checksum
  raises.
\<close>

theorem address_claimed_checksum_rejected:
  "addressValidator spec_defaults (JStr ''0x5aAeb6053f3e94c9b9a09f33669435E7ef1BeAed'') =
     ([Assert Address_notStringSequence True, Assert Address_notStringSequence True,
       Assert Address_notFormat True, Assert Address_notChecksum False],
      Inl (Error Address_notChecksum))"
  by (simp add: tests_defs run member_defs typeof_def spec_defaults_def address_pattern_def
      is_hex_def checksum_addresses)

text \<open>
  C2, as the code has it. The address with the case that the digest of its lowercase
  digits asks for is \<open>0x5aAeb6053F3E94C9b9A09f33669435E7Ef1BeAed\<close>, and
  \<open>addressValidator\<close> returns true on it. The all-lowercase string of the same digits
  passes the assertions on the type, the length and the format, and raises the failure of
  the entry \<open>notChecksum\<close>. The check compares the digits with their lowercase form in
  which each letter is put in upper case exactly when the corresponding nibble of the
  Keccak-256 digest is at least 8.
\<close>

theorem address_checksum_examples:
  "addressValidator spec_defaults (JStr ''0x5aAeb6053F3E94C9b9A09f33669435E7Ef1BeAed'') =
     ([Assert Address_notStringSequence True, Assert Address_notStringSequence True,
       Assert Address_notFormat True, Assert Address_notChecksum True], Inr True)
   \<and> addressValidator spec_defaults (JStr ''0x5aaeb6053f3e94c9b9a09f33669435e7ef1beaed'') =
     ([Assert Address_notStringSequence True, Assert Address_notStringSequence True,
       Assert Address_notFormat True, Assert Address_notChecksum False],
      Inl (Error Address_notChecksum))
   \<and> toChecksum ''5aaeb6053f3e94c9b9a09f33669435e7ef1beaed'' =
       ''5aAeb6053F3E94C9b9A09f33669435E7Ef1BeAed''
   \<and> isValidChecksumAddress (JStr s) =
       (stripHexPrefix s =
         map (\<lambda>(c, h). if 8 \<le> h then upper_hex c else c)
           (zip (toLowerCase (stripHexPrefix s))
                (nibbles (keccak256 (bytes_of (toLowerCase (stripHexPrefix s)))))))"
  by (simp add: tests_defs run member_defs typeof_def spec_defaults_def address_pattern_def
      is_hex_def checksum_addresses toChecksum_addresses)
    (auto simp add: isValidChecksumAddress_def toChecksum_def Let_def)

end
